theory Spec2Isabelle
  imports Main "HOL-Library.Word" "HOL-Library.Sublist" "HOL-Library.AList" "HOL-Library.Multiset"
begin

section \<open>Transport configuration of the RTC server (pkg/rtc/config.go)\<close>

text \<open>
  The development embeds \<^verbatim>\<open>pkg/rtc/config.go\<close>: the interface and IP filters, the
  NAT 1:1 resolver \<^verbatim>\<open>getNAT1to1IPsForConf\<close> and the builder \<^verbatim>\<open>NewWebRTCConfig\<close>.
  Logging calls have no effect on any returned value and are left out.
\<close>

subsection \<open>Errors and panics\<close>

text \<open>
  A Go function of this file either returns normally, returns a non-nil \<^verbatim>\<open>error\<close>
  (with its message, \<^verbatim>\<open>err.Error()\<close>) next to a nil result, or panics. Library calls
  that return \<^verbatim>\<open>(x, error)\<close> are values of \<open>string + 'a\<close>: \<open>Inl msg\<close> is the error.
\<close>

datatype failure = Error string | Panic string

text \<open>\<^verbatim>\<open>strings.Contains(s, substr)\<close>: \<open>substr\<close> occurs in \<open>s\<close> as a contiguous block.\<close>

fun strings_Contains :: "string \<Rightarrow> string \<Rightarrow> bool" where
  "strings_Contains [] substr = (substr = [])"
| "strings_Contains (c # s) substr = (prefix substr (c # s) \<or> strings_Contains s substr)"

subsection \<open>Network filters\<close>

text \<open>\<^verbatim>\<open>config.InterfacesConfig\<close> and \<^verbatim>\<open>config.IPsConfig\<close>: the include and exclude lists.\<close>

record InterfacesConfig =
  if_Includes :: "string list"
  if_Excludes :: "string list"

record IPsConfig =
  ip_Includes :: "string list"
  ip_Excludes :: "string list"

text \<open>\<^verbatim>\<open>InterfaceFilterFromConf\<close> (lines 398-422): the returned closure, applied to \<open>s\<close>.\<close>

definition InterfaceFilterFromConf :: "InterfacesConfig \<Rightarrow> string \<Rightarrow> bool" where
  "InterfaceFilterFromConf ifs s =
     (let includes = if_Includes ifs; excludes = if_Excludes ifs in
      if length includes > 0 then list_ex (\<lambda>iface. iface = s) includes
      else if length excludes > 0 then \<not> list_ex (\<lambda>iface. iface = s) excludes
      else True)"

text \<open>
  The inner function of \<^verbatim>\<open>IPFilterFromConf\<close> (lines 428-438): parse every entry with
  \<^verbatim>\<open>net.ParseCIDR\<close>, stop at the first error. \<^verbatim>\<open>net.ParseCIDR\<close> and the method
  \<^verbatim>\<open>Contains\<close> of \<^verbatim>\<open>net.IPNet\<close> belong to the Go standard library and are parameters.
\<close>

fun parseCIDRs :: "(string \<Rightarrow> string + 'net) \<Rightarrow> string list \<Rightarrow> failure + 'net list" where
  "parseCIDRs ParseCIDR [] = Inr []"
| "parseCIDRs ParseCIDR (ip # fromIPs) =
     (case ParseCIDR ip of
        Inl msg \<Rightarrow> Inl (Error msg)
      | Inr ipnet \<Rightarrow>
          (case parseCIDRs ParseCIDR fromIPs of
             Inl e \<Rightarrow> Inl e
           | Inr toNets \<Rightarrow> Inr (ipnet # toNets)))"

text \<open>The closure returned by \<^verbatim>\<open>IPFilterFromConf\<close> (lines 447-465).\<close>

definition ipFilterClosure :: "('net \<Rightarrow> 'ip \<Rightarrow> bool) \<Rightarrow> 'net list \<Rightarrow> 'net list \<Rightarrow> 'ip \<Rightarrow> bool" where
  "ipFilterClosure Contains includes excludes ip =
     (if length includes > 0 then list_ex (\<lambda>ipn. Contains ipn ip) includes
      else if length excludes > 0 then \<not> list_ex (\<lambda>ipn. Contains ipn ip) excludes
      else True)"

text \<open>\<^verbatim>\<open>IPFilterFromConf\<close> (lines 424-466): includes are parsed first, then excludes.\<close>

definition IPFilterFromConf ::
  "(string \<Rightarrow> string + 'net) \<Rightarrow> ('net \<Rightarrow> 'ip \<Rightarrow> bool) \<Rightarrow> IPsConfig \<Rightarrow> failure + ('ip \<Rightarrow> bool)" where
  "IPFilterFromConf ParseCIDR Contains ips =
     (case parseCIDRs ParseCIDR (ip_Includes ips) of
        Inl e \<Rightarrow> Inl e
      | Inr includes \<Rightarrow>
          (case parseCIDRs ParseCIDR (ip_Excludes ips) of
             Inl e \<Rightarrow> Inl e
           | Inr excludes \<Rightarrow> Inr (ipFilterClosure Contains includes excludes)))"

text \<open>
  Membership of an address in the CIDR block written \<open>c\<close>: \<open>c\<close> parses and the parsed
  network contains the address.
\<close>

definition inCIDR :: "(string \<Rightarrow> string + 'net) \<Rightarrow> ('net \<Rightarrow> 'ip \<Rightarrow> bool) \<Rightarrow> string \<Rightarrow> 'ip \<Rightarrow> bool" where
  "inCIDR ParseCIDR Contains c ip = (case ParseCIDR c of Inl msg \<Rightarrow> False | Inr ipn \<Rightarrow> Contains ipn ip)"

text \<open>
  A small instance of the two library functions, used to run the filters: addresses are
  32-bit numbers, a network is an address with a prefix length, and only the two block
  names below parse.
\<close>

definition demo_ParseCIDR :: "string \<Rightarrow> string + (nat \<times> nat)" where
  "demo_ParseCIDR c =
     (if c = ''10.0.0.0/8'' then Inr (167772160, 8)
      else if c = ''192.168.0.0/16'' then Inr (3232235520, 16)
      else Inl (''invalid CIDR address: '' @ c))"

definition demo_Contains :: "nat \<times> nat \<Rightarrow> nat \<Rightarrow> bool" where
  "demo_Contains ipn ip = (ip div 2 ^ (32 - snd ipn) = fst ipn div 2 ^ (32 - snd ipn))"

subsection \<open>Configuration: the fields of \<^verbatim>\<open>config.Config\<close> that \<^verbatim>\<open>config.go\<close> reads\<close>

text \<open>
  The struct declarations of package \<^verbatim>\<open>config\<close> are outside \<^verbatim>\<open>config.go\<close>. The
  fields are typed as the code uses them: the ports are unsigned 32-bit values, which
  the code converts with \<^verbatim>\<open>uint16(...)\<close> and \<^verbatim>\<open>int(...)\<close>; the packet buffer size is
  an \<^verbatim>\<open>int\<close>, stored into an \<^verbatim>\<open>int\<close> field as it is. Go's \<^verbatim>\<open>int\<close> has 64 bits, so
  no conversion to it overflows. The empty string is the empty list.
\<close>

record CongestionControlConfig =
  UseSendSideBWE :: bool

record RTCConfig =
  UDPPort :: "32 word"
  TCPPort :: "32 word"
  ICEPortRangeStart :: "32 word"
  ICEPortRangeEnd :: "32 word"
  NodeIP :: string
  NodeIPAutoGenerated :: bool
  STUNServers :: "string list"
  UseExternalIP :: bool
  UseICELite :: bool
  UseMDNS :: bool
  StrictACKs :: bool
  PacketBufferSize :: int
  ForceTCP :: bool
  EnableLoopbackCandidate :: bool
  Interfaces :: InterfacesConfig
  IPs :: IPsConfig
  CongestionControl :: CongestionControlConfig

record Config =
  RTC :: RTCConfig
  Development :: bool

subsection \<open>The environment\<close>

text \<open>
  Everything \<^verbatim>\<open>config.go\<close> calls outside itself is a field of the environment,
  named after the Go package and function: the standard library (\<^verbatim>\<open>net\<close>,
  \<^verbatim>\<open>math/rand\<close>), package \<^verbatim>\<open>config\<close> and the pion libraries. The type variables
  stand for \<^verbatim>\<open>net.IP\<close>, \<^verbatim>\<open>*net.IPNet\<close>, \<^verbatim>\<open>ice.UDPMux\<close> and \<^verbatim>\<open>*net.TCPListener\<close>.

  \<^item> \<open>config_GetExternalIP g k servers ip port\<close> is the outcome of the \<open>k\<close>-th STUN
    request issued by the \<open>g\<close>-th probe goroutine; outcomes may differ between
    goroutines and between calls.
  \<^item> \<open>rand_raw i\<close> is the raw value behind the \<open>i\<close>-th call of \<^verbatim>\<open>rand.Intn\<close>.
  \<^item> \<open>chan_order\<close> and \<open>chan_received\<close> are the scheduler's choices: the order in
    which the probes' messages reach the channel \<^verbatim>\<open>addrCh\<close>, and how many of them the
    collector takes before its timer fires.
  \<^item> \<open>range_order\<close> is the order in which Go ranges over the final map.
\<close>

datatype 'ip UDPMuxFromPortOption =
    UDPMuxFromPortWithReadBufferSize int
  | UDPMuxFromPortWithWriteBufferSize int
  | UDPMuxFromPortWithLogger string
  | UDPMuxFromPortWithLoopback
  | UDPMuxFromPortWithIPFilter "'ip \<Rightarrow> bool"
  | UDPMuxFromPortWithInterfaceFilter "string \<Rightarrow> bool"

record ('ip, 'net, 'mux, 'lis) world =
  net_ParseIP :: "string \<Rightarrow> 'ip"
  net_ParseCIDR :: "string \<Rightarrow> string + 'net"
  net_Contains :: "'net \<Rightarrow> 'ip \<Rightarrow> bool"
  net_ListenTCP :: "int \<Rightarrow> string + 'lis"
  rand_raw :: "nat \<Rightarrow> nat"
  config_DefaultStunServers :: "string list"
  config_GetLocalIPAddresses :: "bool \<Rightarrow> string + string list"
  config_GetExternalIP :: "nat \<Rightarrow> nat \<Rightarrow> string list \<Rightarrow> 'ip \<Rightarrow> int \<Rightarrow> string + string"
  webrtc_SetEphemeralUDPPortRange :: "16 word \<Rightarrow> 16 word \<Rightarrow> string option"
  ice_NewMultiUDPMuxFromPort :: "int \<Rightarrow> 'ip UDPMuxFromPortOption list \<Rightarrow> string + 'mux"
  chan_order :: "nat list"
  chan_received :: nat
  range_order :: "nat list"

text \<open>
  An order chosen by the environment: the seed names, step by step, which of the
  remaining elements comes next. Every seed yields a permutation of the list.
\<close>

fun permute :: "nat list \<Rightarrow> 'a list \<Rightarrow> 'a list" where
  "permute seed [] = []"
| "permute [] (x # xs) = x # xs"
| "permute (n # seed) (x # xs) =
     (let i = n mod length (x # xs) in
      (x # xs) ! i # permute seed (take i (x # xs) @ drop (Suc i) (x # xs)))"

subsection \<open>NAT 1:1 resolution: \<^verbatim>\<open>getNAT1to1IPsForConf\<close> (lines 289-396)\<close>

text \<open>\<^verbatim>\<open>rand.Intn(n)\<close> returns a value in \<open>[0, n)\<close> and panics when \<open>n \<le> 0\<close>.\<close>

definition rand_Intn :: "nat \<Rightarrow> int \<Rightarrow> failure + int" where
  "rand_Intn raw n =
     (if n \<le> 0 then Inl (Panic ''invalid argument to Intn'') else Inr (int raw mod n))"

text \<open>
  The loop of lines 307-309 over \<open>i = 0, ..., 4\<close>. The subtraction is on \<^verbatim>\<open>uint16\<close> values
  and wraps; the sum is on \<^verbatim>\<open>int\<close>.
\<close>

fun samplePorts :: "(nat \<Rightarrow> nat) \<Rightarrow> 16 word \<Rightarrow> 16 word \<Rightarrow> nat list \<Rightarrow> failure + int list" where
  "samplePorts raw portRangeStart portRangeEnd [] = Inr []"
| "samplePorts raw portRangeStart portRangeEnd (i # is) =
     (case rand_Intn (raw i) (uint (portRangeEnd - portRangeStart)) of
        Inl e \<Rightarrow> Inl e
      | Inr r \<Rightarrow>
          (case samplePorts raw portRangeStart portRangeEnd is of
             Inl e \<Rightarrow> Inl e
           | Inr udpPorts \<Rightarrow> Inr ((r + uint portRangeStart) # udpPorts)))"

text \<open>The candidate ports \<^verbatim>\<open>udpPorts\<close> (lines 304-314).\<close>

definition udpPortsForConf :: "('ip, 'net, 'mux, 'lis) world \<Rightarrow> Config \<Rightarrow> failure + int list" where
  "udpPortsForConf W conf =
     (if ICEPortRangeStart (RTC conf) \<noteq> 0 \<and> ICEPortRangeEnd (RTC conf) \<noteq> 0 then
        samplePorts (rand_raw W)
          (ucast (ICEPortRangeStart (RTC conf))) (ucast (ICEPortRangeEnd (RTC conf))) [0..<5]
      else if UDPPort (RTC conf) \<noteq> 0 then Inr [uint (UDPPort (RTC conf))]
      else Inr [0])"


text \<open>
  A message on \<^verbatim>\<open>addrCh\<close>: the struct \<^verbatim>\<open>ipmapping{externalIP, localIP}\<close>.
\<close>

type_synonym ipmapping = "string \<times> string"

text \<open>
  The body of a probe goroutine (lines 324-340), for the local address \<open>lip\<close>.
  \<open>stun k port\<close> is the outcome of its \<open>k\<close>-th call of \<^verbatim>\<open>config.GetExternalIP\<close>, bound
  to \<open>port\<close>. The result is the list of messages the goroutine sends on \<^verbatim>\<open>addrCh\<close>
  and the list of ports it has tried, in order.
\<close>

fun probePorts :: "(nat \<Rightarrow> int \<Rightarrow> string + string) \<Rightarrow> string \<Rightarrow> nat \<Rightarrow> int list
    \<Rightarrow> ipmapping list \<times> int list" where
  "probePorts stun lip k [] = ([], [])"
| "probePorts stun lip k (port # ports) =
     (case stun k port of
        Inl err \<Rightarrow>
          if strings_Contains err ''address already in use''
          then (let (sent, tried) = probePorts stun lip (Suc k) ports in (sent, port # tried))
          else ([], [port])
      | Inr addr \<Rightarrow> ([(addr, lip)], [port]))"

definition probe :: "('ip, 'net, 'mux, 'lis) world \<Rightarrow> string list \<Rightarrow> int list \<Rightarrow> nat \<Rightarrow> string
    \<Rightarrow> ipmapping list \<times> int list" where
  "probe W stunServers udpPorts g lip =
     probePorts (\<lambda>k port. config_GetExternalIP W g k stunServers (net_ParseIP W lip) port)
       lip 0 udpPorts"

text \<open>The local addresses for which a goroutine is started (lines 318-323).\<close>

definition launched :: "('ip, 'net, 'mux, 'lis) world \<Rightarrow> ('ip \<Rightarrow> bool) option \<Rightarrow> string list \<Rightarrow> string list" where
  "launched W ipFilter localIPs =
     filter (\<lambda>ip. \<not> (case ipFilter of None \<Rightarrow> False | Some f \<Rightarrow> \<not> f (net_ParseIP W ip))) localIPs"

text \<open>
  The collector's step on one received message (lines 356-363). The Go map
  \<^verbatim>\<open>natMapping\<close> is an association list with distinct keys; \<^verbatim>\<open>m[k] = v\<close> is
  \<open>AList.update k v m\<close>.
\<close>

definition collect :: "ipmapping \<Rightarrow> (string \<times> string) list \<Rightarrow> (string \<times> string) list" where
  "collect mapping natMapping =
     (case map_of natMapping (fst mapping) of
        Some lcl \<Rightarrow> natMapping
      | None \<Rightarrow> AList.update (fst mapping) (snd mapping) natMapping)"

text \<open>One round of the loop that maps an unresolved local address to itself (lines 378-389).\<close>

definition selfMap :: "string \<Rightarrow> (string \<times> string) list \<Rightarrow> (string \<times> string) list" where
  "selfMap lcl natMapping =
     (if list_ex (\<lambda>(external, localIPMapping). lcl = localIPMapping) natMapping
      then natMapping
      else AList.update lcl lcl natMapping)"

text \<open>The messages the collector receives before its timer fires (lines 343-368).\<close>

definition received :: "('ip, 'net, 'mux, 'lis) world \<Rightarrow> string list \<Rightarrow> int list
    \<Rightarrow> ('ip \<Rightarrow> bool) option \<Rightarrow> string list \<Rightarrow> ipmapping list" where
  "received W stunServers udpPorts ipFilter localIPs =
     take (chan_received W)
       (permute (chan_order W)
          (concat (map (\<lambda>(g, ip). fst (probe W stunServers udpPorts g ip))
                     (enumerate 0 (launched W ipFilter localIPs)))))"

text \<open>
  \<^verbatim>\<open>getNAT1to1IPsForConf\<close>. A nil slice is the empty list. The function waits for all
  goroutines before it returns; results sent after the timer has fired stay in the
  channel and are not read.
\<close>

definition getNAT1to1IPsForConf :: "('ip, 'net, 'mux, 'lis) world \<Rightarrow> Config
    \<Rightarrow> ('ip \<Rightarrow> bool) option \<Rightarrow> failure + string list" where
  "getNAT1to1IPsForConf W conf ipFilter =
     (let stunServers = (if length (STUNServers (RTC conf)) = 0
                         then config_DefaultStunServers W else STUNServers (RTC conf)) in
      case config_GetLocalIPAddresses W (EnableLoopbackCandidate (RTC conf)) of
        Inl err \<Rightarrow> Inl (Error err)
      | Inr localIPs \<Rightarrow>
          (case udpPortsForConf W conf of
             Inl e \<Rightarrow> Inl e
           | Inr udpPorts \<Rightarrow>
               (let natMapping = fold collect (received W stunServers udpPorts ipFilter localIPs) [] in
                if length natMapping = 0 then Inr []
                else Inr (map (\<lambda>(external, lcl). external @ ''/'' @ lcl)
                            (permute (range_order W) (fold selfMap localIPs natMapping))))))"

subsection \<open>The returned configuration\<close>

text \<open>
  The string constants of \<^verbatim>\<open>pion/sdp\<close>, \<^verbatim>\<open>pion/webrtc\<close> and the dependency
  descriptor package that the two direction profiles are built from. Their values are
  declared outside \<^verbatim>\<open>config.go\<close> and are parameters.
\<close>

record pion_consts =
  sdp_SDESMidURI :: string
  sdp_SDESRTPStreamIDURI :: string
  sdp_AudioLevelURI :: string
  sdp_TransportCCURI :: string
  sdp_ABSSendTimeURI :: string
  dd_ExtensionUrl :: string
  webrtc_TypeRTCPFBTransportCC :: string
  webrtc_TypeRTCPFBGoogREMB :: string
  webrtc_TypeRTCPFBCCM :: string
  webrtc_TypeRTCPFBNACK :: string

definition frameMarking :: string where
  "frameMarking = ''urn:ietf:params:rtp-hdrext:framemarking''"

definition defaultUDPBufferSize :: int where
  "defaultUDPBufferSize = 16777216"

definition readBufferSize :: int where
  "readBufferSize = 50"

definition writeBufferSizeInBytes :: int where
  "writeBufferSizeInBytes = 4 * 1024 * 1024"

record RTCPFeedback =
  fb_Type :: string
  fb_Parameter :: string

record RTPHeaderExtensionConfig =
  hdr_Audio :: "string list"
  hdr_Video :: "string list"

record RTCPFeedbackConfig =
  rtcpfb_Audio :: "RTCPFeedback list"
  rtcpfb_Video :: "RTCPFeedback list"

record DirectionConfig =
  RTPHeaderExtension :: RTPHeaderExtensionConfig
  RTCPFeedbackCfg :: RTCPFeedbackConfig
  dir_StrictACKs :: bool

record ReceiverConfig =
  recv_PacketBufferSize :: int

datatype NetworkType = NetworkTypeUDP4 | NetworkTypeUDP6 | NetworkTypeTCP4 | NetworkTypeTCP6

record ICEServer =
  URLs :: "string list"

text \<open>\<^verbatim>\<open>webrtc.Configuration\<close>; \<^verbatim>\<open>SDPSemantics\<close> is always unified plan (line 73).\<close>

record Configuration =
  ICEServers :: "ICEServer list"

record 'lis TCPMuxParams =
  tcpmux_Listener :: 'lis
  tcpmux_ReadBufferSize :: int
  tcpmux_WriteBufferSize :: int

text \<open>
  \<^verbatim>\<open>webrtc.SettingEngine\<close>: what the setters called by \<^verbatim>\<open>NewWebRTCConfig\<close> have stored.
  NAT 1:1 addresses are always registered with candidate type host.
\<close>

record ('ip, 'mux, 'lis) SettingEngine =
  se_InterfaceFilter :: "(string \<Rightarrow> bool) option"
  se_IPFilter :: "('ip \<Rightarrow> bool) option"
  se_MulticastDNSDisabled :: bool
  se_NAT1To1IPs :: "string list"
  se_EphemeralUDPPortRange :: "(16 word \<times> 16 word) option"
  se_ICEUDPMux :: "'mux option"
  se_ICETCPMux :: "'lis TCPMuxParams option"
  se_NetworkTypes :: "NetworkType list"
  se_IncludeLoopbackCandidate :: bool
  se_Lite :: bool

text \<open>
  \<^verbatim>\<open>WebRTCConfig\<close>. The field \<^verbatim>\<open>BufferFactory\<close> is not set by \<^verbatim>\<open>NewWebRTCConfig\<close>
  (it is attached later by \<^verbatim>\<open>SetBufferFactory\<close>) and is left out.
\<close>

record ('ip, 'mux, 'lis) WebRTCConfig =
  Configuration :: Configuration
  SettingEngine :: "('ip, 'mux, 'lis) SettingEngine"
  Receiver :: ReceiverConfig
  UDPMux :: "'mux option"
  TCPMuxListener :: "'lis option"
  Publisher :: DirectionConfig
  Subscriber :: DirectionConfig
  NAT1To1IPs :: "string list"
  cfg_UseMDNS :: bool

subsection \<open>\<^verbatim>\<open>NewWebRTCConfig\<close> (lines 70-274)\<close>

definition iceServerForStunServers :: "string list \<Rightarrow> ICEServer" where
  "iceServerForStunServers servers = \<lparr>URLs = map (\<lambda>stunServer. ''stun:'' @ stunServer) servers\<rparr>"

text \<open>The setting engine of line 75, before any setter is called.\<close>

definition newSettingEngine :: "('ip, 'mux, 'lis) SettingEngine" where
  "newSettingEngine =
     \<lparr>se_InterfaceFilter = None, se_IPFilter = None, se_MulticastDNSDisabled = False,
      se_NAT1To1IPs = [], se_EphemeralUDPPortRange = None, se_ICEUDPMux = None,
      se_ICETCPMux = None, se_NetworkTypes = [], se_IncludeLoopbackCandidate = False,
      se_Lite = False\<rparr>"

text \<open>Lines 79-83: the interface filter \<^verbatim>\<open>ifFilter\<close>, nil unless a list is configured.\<close>

definition ifFilterForConf :: "RTCConfig \<Rightarrow> (string \<Rightarrow> bool) option" where
  "ifFilterForConf rtcConf =
     (if length (if_Includes (Interfaces rtcConf)) \<noteq> 0 \<or> length (if_Excludes (Interfaces rtcConf)) \<noteq> 0
      then Some (InterfaceFilterFromConf (Interfaces rtcConf)) else None)"

text \<open>Lines 85-93: the IP filter \<^verbatim>\<open>ipFilter\<close>; a CIDR that does not parse ends the build.\<close>

definition ipFilterForConf :: "('ip, 'net, 'mux, 'lis) world \<Rightarrow> RTCConfig \<Rightarrow> failure + ('ip \<Rightarrow> bool) option" where
  "ipFilterForConf W rtcConf =
     (if length (ip_Includes (IPs rtcConf)) \<noteq> 0 \<or> length (ip_Excludes (IPs rtcConf)) \<noteq> 0
      then (case IPFilterFromConf (net_ParseCIDR W) (net_Contains W) (IPs rtcConf) of
              Inl err \<Rightarrow> Inl err
            | Inr filter' \<Rightarrow> Inr (Some filter'))
      else Inr None)"

text \<open>
  Lines 99-118: the NAT 1:1 addresses. The result is the local variable
  \<^verbatim>\<open>nat1to1IPs\<close> and the addresses registered with the setting engine.
\<close>

definition nat1to1ForConf :: "('ip, 'net, 'mux, 'lis) world \<Rightarrow> Config \<Rightarrow> string
    \<Rightarrow> ('ip \<Rightarrow> bool) option \<Rightarrow> failure + (string list \<times> string list)" where
  "nat1to1ForConf W conf externalIP ipFilter =
     (if externalIP \<noteq> [] \<and>
         (UseExternalIP (RTC conf) \<or> (NodeIP (RTC conf) \<noteq> [] \<and> \<not> NodeIPAutoGenerated (RTC conf)))
      then
        (if UseExternalIP (RTC conf) then
           (case getNAT1to1IPsForConf W conf ipFilter of
              Inl err \<Rightarrow> Inl err
            | Inr ips \<Rightarrow> if length ips = 0 then Inr (ips, [externalIP]) else Inr (ips, ips))
         else Inr ([], [externalIP]))
      else Inr ([], []))"

text \<open>Lines 137-150: the options of the UDP multiplexer.\<close>

definition udpMuxOpts :: "RTCConfig \<Rightarrow> (string \<Rightarrow> bool) option \<Rightarrow> ('ip \<Rightarrow> bool) option
    \<Rightarrow> 'ip UDPMuxFromPortOption list" where
  "udpMuxOpts rtcConf ifFilter ipFilter =
     [UDPMuxFromPortWithReadBufferSize defaultUDPBufferSize,
      UDPMuxFromPortWithWriteBufferSize defaultUDPBufferSize,
      UDPMuxFromPortWithLogger ''udp_mux'']
     @ (if EnableLoopbackCandidate rtcConf then [UDPMuxFromPortWithLoopback] else [])
     @ (case ipFilter of None \<Rightarrow> [] | Some f \<Rightarrow> [UDPMuxFromPortWithIPFilter f])
     @ (case ifFilter of None \<Rightarrow> [] | Some f \<Rightarrow> [UDPMuxFromPortWithInterfaceFilter f])"

text \<open>
  Lines 128-161: UDP. The result is \<^verbatim>\<open>networkTypes\<close> and the updated setting engine.
  The multiplexer built at line 151 is bound by \<^verbatim>\<open>:=\<close> to a variable of the inner
  block; it reaches the setting engine (line 156) and nothing else.
  \<^verbatim>\<open>checkUDPReadBuffer\<close> only inspects the socket buffer size and logs.
\<close>

definition udpForConf :: "('ip, 'net, 'mux, 'lis) world \<Rightarrow> RTCConfig \<Rightarrow> (string \<Rightarrow> bool) option
    \<Rightarrow> ('ip \<Rightarrow> bool) option \<Rightarrow> ('ip, 'mux, 'lis) SettingEngine
    \<Rightarrow> failure + (NetworkType list \<times> ('ip, 'mux, 'lis) SettingEngine)" where
  "udpForConf W rtcConf ifFilter ipFilter s =
     (if \<not> ForceTCP rtcConf then
        (if ICEPortRangeStart rtcConf \<noteq> 0 \<and> ICEPortRangeEnd rtcConf \<noteq> 0 then
           (case webrtc_SetEphemeralUDPPortRange W
                   (ucast (ICEPortRangeStart rtcConf)) (ucast (ICEPortRangeEnd rtcConf)) of
              Some err \<Rightarrow> Inl (Error err)
            | None \<Rightarrow> Inr ([NetworkTypeUDP4, NetworkTypeUDP6],
                  s\<lparr>se_EphemeralUDPPortRange :=
                      Some (ucast (ICEPortRangeStart rtcConf), ucast (ICEPortRangeEnd rtcConf))\<rparr>))
         else if UDPPort rtcConf \<noteq> 0 then
           (case ice_NewMultiUDPMuxFromPort W (uint (UDPPort rtcConf))
                   (udpMuxOpts rtcConf ifFilter ipFilter) of
              Inl err \<Rightarrow> Inl (Error err)
            | Inr udpMux \<Rightarrow> Inr ([NetworkTypeUDP4, NetworkTypeUDP6], s\<lparr>se_ICEUDPMux := Some udpMux\<rparr>))
         else Inr ([NetworkTypeUDP4, NetworkTypeUDP6], s))
      else Inr ([], s))"

text \<open>Lines 163-184: TCP. The result is \<^verbatim>\<open>networkTypes\<close>, \<^verbatim>\<open>tcpListener\<close> and the setting engine.\<close>

definition tcpForConf :: "('ip, 'net, 'mux, 'lis) world \<Rightarrow> RTCConfig \<Rightarrow> NetworkType list
    \<Rightarrow> ('ip, 'mux, 'lis) SettingEngine
    \<Rightarrow> failure + (NetworkType list \<times> 'lis option \<times> ('ip, 'mux, 'lis) SettingEngine)" where
  "tcpForConf W rtcConf networkTypes s =
     (if TCPPort rtcConf \<noteq> 0 then
        (case net_ListenTCP W (uint (TCPPort rtcConf)) of
           Inl err \<Rightarrow> Inl (Error err)
         | Inr tcpListener \<Rightarrow>
             Inr (networkTypes @ [NetworkTypeTCP4, NetworkTypeTCP6], Some tcpListener,
                  s\<lparr>se_ICETCPMux := Some \<lparr>tcpmux_Listener = tcpListener,
                       tcpmux_ReadBufferSize = readBufferSize,
                       tcpmux_WriteBufferSize = writeBufferSizeInBytes\<rparr>\<rparr>))
      else Inr (networkTypes, None, s))"

text \<open>Lines 195-223: the publisher profile.\<close>

definition publisherConfig :: "pion_consts \<Rightarrow> DirectionConfig" where
  "publisherConfig K =
     \<lparr>RTPHeaderExtension =
        \<lparr>hdr_Audio = [sdp_SDESMidURI K, sdp_SDESRTPStreamIDURI K, sdp_AudioLevelURI K],
         hdr_Video = [sdp_SDESMidURI K, sdp_SDESRTPStreamIDURI K, sdp_TransportCCURI K,
                      frameMarking, dd_ExtensionUrl K]\<rparr>,
      RTCPFeedbackCfg =
        \<lparr>rtcpfb_Audio = [\<lparr>fb_Type = webrtc_TypeRTCPFBNACK K, fb_Parameter = []\<rparr>],
         rtcpfb_Video = [\<lparr>fb_Type = webrtc_TypeRTCPFBTransportCC K, fb_Parameter = []\<rparr>,
                         \<lparr>fb_Type = webrtc_TypeRTCPFBCCM K, fb_Parameter = ''fir''\<rparr>,
                         \<lparr>fb_Type = webrtc_TypeRTCPFBNACK K, fb_Parameter = []\<rparr>,
                         \<lparr>fb_Type = webrtc_TypeRTCPFBNACK K, fb_Parameter = ''pli''\<rparr>]\<rparr>,
      dir_StrictACKs = True\<rparr>"

text \<open>Lines 225-245: the subscriber profile; the last entry of each video list depends on the flag.\<close>

definition subscriberConfig :: "pion_consts \<Rightarrow> Config \<Rightarrow> RTCConfig \<Rightarrow> DirectionConfig" where
  "subscriberConfig K conf rtcConf =
     (let subscriberConfig =
        \<lparr>RTPHeaderExtension = \<lparr>hdr_Audio = [], hdr_Video = [dd_ExtensionUrl K]\<rparr>,
         RTCPFeedbackCfg =
           \<lparr>rtcpfb_Audio = [],
            rtcpfb_Video = [\<lparr>fb_Type = webrtc_TypeRTCPFBCCM K, fb_Parameter = ''fir''\<rparr>,
                            \<lparr>fb_Type = webrtc_TypeRTCPFBNACK K, fb_Parameter = []\<rparr>,
                            \<lparr>fb_Type = webrtc_TypeRTCPFBNACK K, fb_Parameter = ''pli''\<rparr>]\<rparr>,
         dir_StrictACKs = StrictACKs (RTC conf)\<rparr>
      in
      if UseSendSideBWE (CongestionControl rtcConf) then
        subscriberConfig
          \<lparr>RTPHeaderExtension := (RTPHeaderExtension subscriberConfig)
             \<lparr>hdr_Video := hdr_Video (RTPHeaderExtension subscriberConfig) @ [sdp_TransportCCURI K]\<rparr>,
           RTCPFeedbackCfg := (RTCPFeedbackCfg subscriberConfig)
             \<lparr>rtcpfb_Video := rtcpfb_Video (RTCPFeedbackCfg subscriberConfig)
                @ [\<lparr>fb_Type = webrtc_TypeRTCPFBTransportCC K, fb_Parameter = []\<rparr>]\<rparr>\<rparr>
      else
        subscriberConfig
          \<lparr>RTPHeaderExtension := (RTPHeaderExtension subscriberConfig)
             \<lparr>hdr_Video := hdr_Video (RTPHeaderExtension subscriberConfig) @ [sdp_ABSSendTimeURI K]\<rparr>,
           RTCPFeedbackCfg := (RTCPFeedbackCfg subscriberConfig)
             \<lparr>rtcpfb_Video := rtcpfb_Video (RTCPFeedbackCfg subscriberConfig)
                @ [\<lparr>fb_Type = webrtc_TypeRTCPFBGoogREMB K, fb_Parameter = []\<rparr>]\<rparr>\<rparr>)"

text \<open>Lines 247-259: ICE lite, or else the STUN servers of the configuration.\<close>

definition iceServersForConf :: "('ip, 'net, 'mux, 'lis) world \<Rightarrow> RTCConfig \<Rightarrow> ICEServer list" where
  "iceServersForConf W rtcConf =
     (if UseICELite rtcConf then []
      else if NodeIP rtcConf = [] \<and> \<not> UseExternalIP rtcConf then
        (if length (STUNServers rtcConf) > 0 then [iceServerForStunServers (STUNServers rtcConf)]
         else [iceServerForStunServers (config_DefaultStunServers W)])
      else [])"

text \<open>
  \<^verbatim>\<open>NewWebRTCConfig\<close>. \<open>rtcConf\<close> is a copy of \<^verbatim>\<open>conf.RTC\<close>; line 121 changes the
  copy. \<open>udpMux\<close> is the variable declared at line 124, which no later statement assigns.
  The empty string is the empty list.
\<close>

definition NewWebRTCConfig :: "pion_consts \<Rightarrow> ('ip, 'net, 'mux, 'lis) world \<Rightarrow> Config \<Rightarrow> string
    \<Rightarrow> failure + ('ip, 'mux, 'lis) WebRTCConfig" where
  "NewWebRTCConfig K W conf externalIP =
     (let rtcConf = RTC conf;
          ifFilter = ifFilterForConf rtcConf;
          s = newSettingEngine\<lparr>se_InterfaceFilter := ifFilter\<rparr>
      in
      case ipFilterForConf W rtcConf of
        Inl err \<Rightarrow> Inl err
      | Inr ipFilter \<Rightarrow>
      (let s = s\<lparr>se_IPFilter := ipFilter, se_MulticastDNSDisabled := \<not> UseMDNS rtcConf\<rparr> in
       case nat1to1ForConf W conf externalIP ipFilter of
         Inl err \<Rightarrow> Inl err
       | Inr (nat1to1IPs, registered) \<Rightarrow>
       (let s = s\<lparr>se_NAT1To1IPs := registered\<rparr>;
            rtcConf = (if PacketBufferSize rtcConf = 0
                       then rtcConf\<lparr>PacketBufferSize := 500\<rparr> else rtcConf);
            udpMux = None
        in
        case udpForConf W rtcConf ifFilter ipFilter s of
          Inl err \<Rightarrow> Inl err
        | Inr (networkTypes, s) \<Rightarrow>
        (case tcpForConf W rtcConf networkTypes s of
           Inl err \<Rightarrow> Inl err
         | Inr (networkTypes, tcpListener, s) \<Rightarrow>
           if length networkTypes = 0 then Inl (Error ''TCP is forced but not configured'')
           else
             (let s = s\<lparr>se_NetworkTypes := networkTypes\<rparr>;
                  s = (if EnableLoopbackCandidate rtcConf
                       then s\<lparr>se_IncludeLoopbackCandidate := True\<rparr> else s);
                  s = (if UseICELite rtcConf then s\<lparr>se_Lite := True\<rparr> else s);
                  c = \<lparr>ICEServers = iceServersForConf W rtcConf\<rparr>
              in Inr \<lparr>Configuration = c,
                      SettingEngine = s,
                      Receiver = \<lparr>recv_PacketBufferSize = PacketBufferSize rtcConf\<rparr>,
                      UDPMux = udpMux,
                      TCPMuxListener = tcpListener,
                      Publisher = publisherConfig K,
                      Subscriber = subscriberConfig K conf rtcConf,
                      NAT1To1IPs = nat1to1IPs,
                      cfg_UseMDNS = UseMDNS rtcConf\<rparr>)))))"

subsection \<open>Concrete environments and configurations\<close>

text \<open>
  The values the pion libraries give to the constants, and a small environment in which
  the functions above can be run: addresses are 32-bit numbers (0 for a string that is
  not an address), a multiplexer or a listener is identified by its port.
\<close>

definition pion_values :: pion_consts where
  "pion_values =
     \<lparr>sdp_SDESMidURI = ''urn:ietf:params:rtp-hdrext:sdes:mid'',
      sdp_SDESRTPStreamIDURI = ''urn:ietf:params:rtp-hdrext:sdes:rtp-stream-id'',
      sdp_AudioLevelURI = ''urn:ietf:params:rtp-hdrext:ssrc-audio-level'',
      sdp_TransportCCURI = ''http://www.ietf.org/id/draft-holmer-rmcat-transport-wide-cc-extensions-01'',
      sdp_ABSSendTimeURI = ''http://www.webrtc.org/experiments/rtp-hdrext/abs-send-time'',
      dd_ExtensionUrl = ''https://aomediacodec.github.io/av1-rtp-spec/#dependency-descriptor-rtp-header-extension'',
      webrtc_TypeRTCPFBTransportCC = ''transport-cc'',
      webrtc_TypeRTCPFBGoogREMB = ''goog-remb'',
      webrtc_TypeRTCPFBCCM = ''ccm'',
      webrtc_TypeRTCPFBNACK = ''nack''\<rparr>"

definition demo_ParseIP :: "string \<Rightarrow> nat" where
  "demo_ParseIP ip =
     (if ip = ''10.0.0.1'' then 167772161
      else if ip = ''10.0.0.2'' then 167772162
      else if ip = ''203.0.113.5'' then 3405803781
      else 0)"

text \<open>STUN outcomes: nothing answers.\<close>

definition stun_silent :: "nat \<Rightarrow> nat \<Rightarrow> string list \<Rightarrow> nat \<Rightarrow> int \<Rightarrow> string + string" where
  "stun_silent g k servers ip port = Inl ''i/o timeout''"

text \<open>
  STUN outcomes: requests from 10.0.0.1 leave through the interface that owns the public
  address 203.0.113.5, and requests from 203.0.113.5 see that address itself.
\<close>

definition stun_shared :: "nat \<Rightarrow> nat \<Rightarrow> string list \<Rightarrow> nat \<Rightarrow> int \<Rightarrow> string + string" where
  "stun_shared g k servers ip port =
     (if ip = 167772161 \<or> ip = 3405803781 then Inr ''203.0.113.5'' else Inl ''i/o timeout'')"

definition local_one :: "bool \<Rightarrow> string + string list" where
  "local_one includeLoopback = Inr [''10.0.0.1'']"

definition local_two :: "bool \<Rightarrow> string + string list" where
  "local_two includeLoopback = Inr [''10.0.0.1'', ''203.0.113.5'']"

definition local_none :: "bool \<Rightarrow> string + string list" where
  "local_none includeLoopback = Inr []"

definition demo_ListenTCP :: "int \<Rightarrow> string + nat" where
  "demo_ListenTCP port = Inr (nat port)"

definition demo_NewMultiUDPMuxFromPort :: "int \<Rightarrow> nat UDPMuxFromPortOption list \<Rightarrow> string + nat" where
  "demo_NewMultiUDPMuxFromPort port opts = Inr (nat port)"

definition demo_SetEphemeralUDPPortRange :: "16 word \<Rightarrow> 16 word \<Rightarrow> string option" where
  "demo_SetEphemeralUDPPortRange portMin portMax =
     (if portMax < portMin then Some ''invalid port'' else None)"

definition demo_raw :: "nat \<Rightarrow> nat" where
  "demo_raw i = 7919 * i + 13"

definition demo_world :: "(nat, nat \<times> nat, nat, nat) world" where
  "demo_world =
     \<lparr>net_ParseIP = demo_ParseIP,
      net_ParseCIDR = demo_ParseCIDR,
      net_Contains = demo_Contains,
      net_ListenTCP = demo_ListenTCP,
      rand_raw = demo_raw,
      config_DefaultStunServers = [''stun.l.google.com:19302''],
      config_GetLocalIPAddresses = local_one,
      config_GetExternalIP = stun_silent,
      webrtc_SetEphemeralUDPPortRange = demo_SetEphemeralUDPPortRange,
      ice_NewMultiUDPMuxFromPort = demo_NewMultiUDPMuxFromPort,
      chan_order = [],
      chan_received = 2,
      range_order = []\<rparr>"

text \<open>Two local addresses, both resolving to 203.0.113.5; the answer for 10.0.0.1 arrives first.\<close>

definition shared_world :: "(nat, nat \<times> nat, nat, nat) world" where
  "shared_world =
     demo_world\<lparr>config_GetLocalIPAddresses := local_two, config_GetExternalIP := stun_shared\<rparr>"

definition empty_world :: "(nat, nat \<times> nat, nat, nat) world" where
  "empty_world =
     demo_world\<lparr>config_GetLocalIPAddresses := local_none, config_GetExternalIP := stun_shared\<rparr>"

text \<open>A configuration with every field zero, false or empty, and variations of it.\<close>

definition conf_zero :: Config where
  "conf_zero =
     \<lparr>RTC = \<lparr>UDPPort = 0, TCPPort = 0, ICEPortRangeStart = 0, ICEPortRangeEnd = 0,
             NodeIP = [], NodeIPAutoGenerated = False, STUNServers = [],
             UseExternalIP = False, UseICELite = False, UseMDNS = False, StrictACKs = False,
             PacketBufferSize = 0, ForceTCP = False, EnableLoopbackCandidate = False,
             Interfaces = \<lparr>if_Includes = [], if_Excludes = []\<rparr>,
             IPs = \<lparr>ip_Includes = [], ip_Excludes = []\<rparr>,
             CongestionControl = \<lparr>UseSendSideBWE = False\<rparr>\<rparr>,
      Development = False\<rparr>"

definition conf_udp :: Config where
  "conf_udp = conf_zero\<lparr>RTC := (RTC conf_zero)\<lparr>UDPPort := 7882\<rparr>\<rparr>"

definition conf_udp_bwe :: Config where
  "conf_udp_bwe = conf_zero\<lparr>RTC := (RTC conf_zero)
     \<lparr>UDPPort := 7882, PacketBufferSize := 200,
      CongestionControl := \<lparr>UseSendSideBWE = True\<rparr>\<rparr>\<rparr>"

definition conf_external :: Config where
  "conf_external = conf_zero\<lparr>RTC := (RTC conf_zero)\<lparr>UDPPort := 7882, UseExternalIP := True\<rparr>\<rparr>"



definition conf_single_port_range :: Config where
  "conf_single_port_range = conf_zero\<lparr>RTC := (RTC conf_zero)
     \<lparr>ICEPortRangeStart := 50000, ICEPortRangeEnd := 50000, UseExternalIP := True\<rparr>\<rparr>"

definition conf_port_range :: Config where
  "conf_port_range = conf_zero\<lparr>RTC := (RTC conf_zero)
     \<lparr>ICEPortRangeStart := 50000, ICEPortRangeEnd := 60000, UseExternalIP := True\<rparr>\<rparr>"

definition conf_one_port_exclude_ten :: Config where
  "conf_one_port_exclude_ten = conf_zero\<lparr>RTC := (RTC conf_zero)
     \<lparr>ICEPortRangeStart := 50000, ICEPortRangeEnd := 50000, UseExternalIP := True,
      IPs := \<lparr>ip_Includes = [], ip_Excludes = [''10.0.0.0/8'']\<rparr>\<rparr>\<rparr>"


definition conf_exclude_ten :: Config where
  "conf_exclude_ten = conf_zero\<lparr>RTC := (RTC conf_zero)
     \<lparr>UDPPort := 7882, UseExternalIP := True,
      IPs := \<lparr>ip_Includes = [], ip_Excludes = [''10.0.0.0/8'']\<rparr>\<rparr>\<rparr>"

text \<open>
  The outcome of a STUN request that makes the probe try its next port (line 329).
\<close>

definition addressInUse :: "string + string \<Rightarrow> bool" where
  "addressInUse r =
     (case r of Inl err \<Rightarrow> strings_Contains err ''address already in use'' | Inr addr \<Rightarrow> False)"

text \<open>STUN outcomes: port 7882 is taken, port 7883 gets an answer, nothing else does.\<close>

definition stun_busy :: "nat \<Rightarrow> nat \<Rightarrow> string list \<Rightarrow> nat \<Rightarrow> int \<Rightarrow> string + string" where
  "stun_busy g k servers ip port =
     (if port = 7882 then Inl ''listen udp4 10.0.0.1:7882: bind: address already in use''
      else if port = 7883 then Inr ''203.0.113.5''
      else Inl ''i/o timeout'')"

definition busy_world :: "(nat, nat \<times> nat, nat, nat) world" where
  "busy_world = demo_world\<lparr>config_GetExternalIP := stun_busy\<rparr>"


definition answering_world :: "(nat, nat \<times> nat, nat, nat) world" where
  "answering_world = demo_world\<lparr>config_GetExternalIP := stun_shared\<rparr>"

section \<open>Properties\<close>

subsection \<open>Network filters\<close>

lemma parseCIDRs_length:
  "parseCIDRs ParseCIDR xs = Inr nets \<Longrightarrow> length nets = length xs"
  by (induction xs arbitrary: nets) (auto split: sum.splits)

lemma parseCIDRs_nets:
  "parseCIDRs ParseCIDR xs = Inr nets \<Longrightarrow> map ParseCIDR xs = map Inr nets"
  by (induction xs arbitrary: nets) (auto split: sum.splits)

lemma parseCIDRs_member:
  assumes "parseCIDRs ParseCIDR xs = Inr nets"
  shows "list_ex (\<lambda>ipn. Contains ipn ip) nets \<longleftrightarrow> (\<exists>c\<in>set xs. inCIDR ParseCIDR Contains c ip)"
  using assms
proof (induction xs arbitrary: nets)
  case Nil
  then show ?case by simp
next
  case (Cons c cs)
  from Cons.prems obtain n ns where n: "ParseCIDR c = Inr n"
    and ns: "parseCIDRs ParseCIDR cs = Inr ns" and nets: "nets = n # ns"
    by (auto split: sum.splits)
  from Cons.IH [OF ns] show ?case
    by (simp add: nets n inCIDR_def)
qed

lemma InterfaceFilterFromConf_eq:
  "InterfaceFilterFromConf ifs s =
     (if if_Includes ifs \<noteq> [] then s \<in> set (if_Includes ifs)
      else if if_Excludes ifs \<noteq> [] then s \<notin> set (if_Excludes ifs) else True)"
  by (auto simp: InterfaceFilterFromConf_def list_ex_iff)

lemma IPFilterFromConf_eq:
  assumes "IPFilterFromConf ParseCIDR Contains ips = Inr f"
  shows "f ip =
     (if ip_Includes ips \<noteq> [] then (\<exists>c\<in>set (ip_Includes ips). inCIDR ParseCIDR Contains c ip)
      else if ip_Excludes ips \<noteq> [] then \<not> (\<exists>c\<in>set (ip_Excludes ips). inCIDR ParseCIDR Contains c ip)
      else True)"
proof -
  from assms obtain incs excs where
    incs: "parseCIDRs ParseCIDR (ip_Includes ips) = Inr incs" and
    excs: "parseCIDRs ParseCIDR (ip_Excludes ips) = Inr excs" and
    f: "f = ipFilterClosure Contains incs excs"
    by (auto simp: IPFilterFromConf_def split: sum.splits)
  have li: "incs = [] \<longleftrightarrow> ip_Includes ips = []"
    using parseCIDRs_length [OF incs] by auto
  have le: "excs = [] \<longleftrightarrow> ip_Excludes ips = []"
    using parseCIDRs_length [OF excs] by auto
  show ?thesis
    by (simp add: f ipFilterClosure_def li le
        parseCIDRs_member [OF incs] parseCIDRs_member [OF excs])
qed

lemma parseCIDRs_returns:
  assumes "\<forall>c\<in>set xs. \<exists>ipn. ParseCIDR c = Inr ipn"
  shows "\<exists>nets. parseCIDRs ParseCIDR xs = Inr nets"
  using assms
proof (induction xs)
  case Nil
  show ?case by simp
next
  case (Cons c cs)
  from Cons.prems obtain ipn where "ParseCIDR c = Inr ipn" by auto
  moreover from Cons obtain nets where "parseCIDRs ParseCIDR cs = Inr nets" by auto
  ultimately show ?case by simp
qed

lemma IPFilterFromConf_returns:
  assumes "\<forall>c\<in>set (ip_Includes ips) \<union> set (ip_Excludes ips). \<exists>ipn. ParseCIDR c = Inr ipn"
  shows "\<exists>f. IPFilterFromConf ParseCIDR Contains ips = Inr f"
proof -
  obtain incs where "parseCIDRs ParseCIDR (ip_Includes ips) = Inr incs"
    using parseCIDRs_returns [of "ip_Includes ips" ParseCIDR] assms by auto
  moreover obtain excs where "parseCIDRs ParseCIDR (ip_Excludes ips) = Inr excs"
    using parseCIDRs_returns [of "ip_Excludes ips" ParseCIDR] assms by auto
  ultimately show ?thesis by (simp add: IPFilterFromConf_def)
qed

text \<open>
  C4. Both filters follow the same rule. With a non-empty include set, a name (an
  address) is accepted exactly when it is in the include set (inside one of its blocks),
  whatever the exclude set holds. With an empty include set and a non-empty exclude set,
  it is accepted exactly when it is not in the exclude set (inside none of its blocks).
  With both sets empty, everything is accepted. \<^verbatim>\<open>IPFilterFromConf\<close> returns a filter
  whenever every include and exclude entry parses as a CIDR block, and every filter it
  returns follows the rule.
\<close>

theorem filters_include_exclude:
  "(if_Includes ifs \<noteq> [] \<longrightarrow>
      (InterfaceFilterFromConf ifs s \<longleftrightarrow> s \<in> set (if_Includes ifs)))
   \<and> (if_Includes ifs = [] \<and> if_Excludes ifs \<noteq> [] \<longrightarrow>
      (InterfaceFilterFromConf ifs s \<longleftrightarrow> s \<notin> set (if_Excludes ifs)))
   \<and> (if_Includes ifs = [] \<and> if_Excludes ifs = [] \<longrightarrow> InterfaceFilterFromConf ifs s)
   \<and> ((\<forall>c\<in>set (ip_Includes ips) \<union> set (ip_Excludes ips). \<exists>ipn. ParseCIDR c = Inr ipn) \<longrightarrow>
        (\<exists>g. IPFilterFromConf ParseCIDR Contains ips = Inr g))
   \<and> (IPFilterFromConf ParseCIDR Contains ips = Inr f \<longrightarrow>
        (ip_Includes ips \<noteq> [] \<longrightarrow>
           (f ip \<longleftrightarrow> (\<exists>c\<in>set (ip_Includes ips). inCIDR ParseCIDR Contains c ip)))
      \<and> (ip_Includes ips = [] \<and> ip_Excludes ips \<noteq> [] \<longrightarrow>
           (f ip \<longleftrightarrow> \<not> (\<exists>c\<in>set (ip_Excludes ips). inCIDR ParseCIDR Contains c ip)))
      \<and> (ip_Includes ips = [] \<and> ip_Excludes ips = [] \<longrightarrow> f ip))"
proof -
  have a: "IPFilterFromConf ParseCIDR Contains ips = Inr f \<Longrightarrow>
      f ip = (if ip_Includes ips \<noteq> [] then (\<exists>c\<in>set (ip_Includes ips). inCIDR ParseCIDR Contains c ip)
        else if ip_Excludes ips \<noteq> [] then \<not> (\<exists>c\<in>set (ip_Excludes ips). inCIDR ParseCIDR Contains c ip)
        else True)"
    by (rule IPFilterFromConf_eq)
  have b: "InterfaceFilterFromConf ifs s =
     (if if_Includes ifs \<noteq> [] then s \<in> set (if_Includes ifs)
      else if if_Excludes ifs \<noteq> [] then s \<notin> set (if_Excludes ifs) else True)"
    by (rule InterfaceFilterFromConf_eq)
  have c: "(\<forall>c\<in>set (ip_Includes ips) \<union> set (ip_Excludes ips). \<exists>ipn. ParseCIDR c = Inr ipn) \<longrightarrow>
        (\<exists>g. IPFilterFromConf ParseCIDR Contains ips = Inr g)"
    using IPFilterFromConf_returns [of ips ParseCIDR Contains] by blast
  have d: "(if_Includes ifs \<noteq> [] \<longrightarrow>
      (InterfaceFilterFromConf ifs s \<longleftrightarrow> s \<in> set (if_Includes ifs)))
   \<and> (if_Includes ifs = [] \<and> if_Excludes ifs \<noteq> [] \<longrightarrow>
      (InterfaceFilterFromConf ifs s \<longleftrightarrow> s \<notin> set (if_Excludes ifs)))
   \<and> (if_Includes ifs = [] \<and> if_Excludes ifs = [] \<longrightarrow> InterfaceFilterFromConf ifs s)"
    using b by simp
  have e: "IPFilterFromConf ParseCIDR Contains ips = Inr f \<longrightarrow>
        (ip_Includes ips \<noteq> [] \<longrightarrow>
           (f ip \<longleftrightarrow> (\<exists>c\<in>set (ip_Includes ips). inCIDR ParseCIDR Contains c ip)))
      \<and> (ip_Includes ips = [] \<and> ip_Excludes ips \<noteq> [] \<longrightarrow>
           (f ip \<longleftrightarrow> \<not> (\<exists>c\<in>set (ip_Excludes ips). inCIDR ParseCIDR Contains c ip)))
      \<and> (ip_Includes ips = [] \<and> ip_Excludes ips = [] \<longrightarrow> f ip)"
    using a by simp
  from c d e show ?thesis by blast
qed

theorem filters_include_exclude_witness:
  "InterfaceFilterFromConf \<lparr>if_Includes = [''eth0''], if_Excludes = [''eth0'']\<rparr> ''eth0''
   \<and> \<not> InterfaceFilterFromConf \<lparr>if_Includes = [''eth0''], if_Excludes = []\<rparr> ''docker0''
   \<and> \<not> InterfaceFilterFromConf \<lparr>if_Includes = [], if_Excludes = [''docker0'']\<rparr> ''docker0''
   \<and> InterfaceFilterFromConf \<lparr>if_Includes = [], if_Excludes = []\<rparr> ''lo''
   \<and> (case IPFilterFromConf demo_ParseCIDR demo_Contains
          \<lparr>ip_Includes = [''10.0.0.0/8''], ip_Excludes = [''10.0.0.0/8'']\<rparr> of
        Inl e \<Rightarrow> False | Inr f \<Rightarrow> f 167772161 \<and> \<not> f 3232235521)
   \<and> (case IPFilterFromConf demo_ParseCIDR demo_Contains
          \<lparr>ip_Includes = [], ip_Excludes = [''192.168.0.0/16'']\<rparr> of
        Inl e \<Rightarrow> False | Inr f \<Rightarrow> \<not> f 3232235521 \<and> f 167772161)
   \<and> (case IPFilterFromConf demo_ParseCIDR demo_Contains
          \<lparr>ip_Includes = [], ip_Excludes = []\<rparr> of
        Inl e \<Rightarrow> False | Inr f \<Rightarrow> f 3232235521)"
proof -
  let ?i1 = "\<lparr>if_Includes = [''eth0''], if_Excludes = [''eth0'']\<rparr>"
  let ?i2 = "\<lparr>if_Includes = [''eth0''], if_Excludes = []\<rparr>"
  let ?i3 = "\<lparr>if_Includes = [], if_Excludes = [''docker0'']\<rparr>"
  let ?i4 = "\<lparr>if_Includes = [], if_Excludes = []\<rparr>"
  let ?p1 = "\<lparr>ip_Includes = [''10.0.0.0/8''], ip_Excludes = [''10.0.0.0/8'']\<rparr>"
  let ?p2 = "\<lparr>ip_Includes = [], ip_Excludes = [''192.168.0.0/16'']\<rparr>"
  let ?p3 = "\<lparr>ip_Includes = [], ip_Excludes = []\<rparr>"
  note inst = filters_include_exclude [where ParseCIDR = demo_ParseCIDR and Contains = demo_Contains]
  have n1: "InterfaceFilterFromConf ?i1 ''eth0''"
    using inst [where ifs = ?i1 and s = "''eth0''" and ips = ?p3 and f = "\<lambda>ip. True" and ip = 0]
    by simp
  have n2: "\<not> InterfaceFilterFromConf ?i2 ''docker0''"
    using inst [where ifs = ?i2 and s = "''docker0''" and ips = ?p3 and f = "\<lambda>ip. True" and ip = 0]
    by simp
  have n3: "\<not> InterfaceFilterFromConf ?i3 ''docker0''"
    using inst [where ifs = ?i3 and s = "''docker0''" and ips = ?p3 and f = "\<lambda>ip. True" and ip = 0]
    by simp
  have n4: "InterfaceFilterFromConf ?i4 ''lo''"
    using inst [where ifs = ?i4 and s = "''lo''" and ips = ?p3 and f = "\<lambda>ip. True" and ip = 0]
    by simp
  obtain f1 where f1: "IPFilterFromConf demo_ParseCIDR demo_Contains ?p1 = Inr f1"
    using inst [where ifs = ?i4 and s = "''lo''" and ips = ?p1 and f = "\<lambda>ip. True" and ip = 0]
    by (auto simp: demo_ParseCIDR_def)
  obtain f2 where f2: "IPFilterFromConf demo_ParseCIDR demo_Contains ?p2 = Inr f2"
    using inst [where ifs = ?i4 and s = "''lo''" and ips = ?p2 and f = "\<lambda>ip. True" and ip = 0]
    by (auto simp: demo_ParseCIDR_def)
  obtain f3 where f3: "IPFilterFromConf demo_ParseCIDR demo_Contains ?p3 = Inr f3"
    using inst [where ifs = ?i4 and s = "''lo''" and ips = ?p3 and f = "\<lambda>ip. True" and ip = 0]
    by auto
  have a1: "f1 167772161"
    using f1 inst [where ifs = ?i4 and s = "''lo''" and ips = ?p1 and f = f1 and ip = 167772161]
    by (simp add: inCIDR_def demo_ParseCIDR_def demo_Contains_def)
  have a2: "\<not> f1 3232235521"
    using f1 inst [where ifs = ?i4 and s = "''lo''" and ips = ?p1 and f = f1 and ip = 3232235521]
    by (simp add: inCIDR_def demo_ParseCIDR_def demo_Contains_def)
  have b1: "\<not> f2 3232235521"
    using f2 inst [where ifs = ?i4 and s = "''lo''" and ips = ?p2 and f = f2 and ip = 3232235521]
    by (simp add: inCIDR_def demo_ParseCIDR_def demo_Contains_def)
  have b2: "f2 167772161"
    using f2 inst [where ifs = ?i4 and s = "''lo''" and ips = ?p2 and f = f2 and ip = 167772161]
    by (simp add: inCIDR_def demo_ParseCIDR_def demo_Contains_def)
  have c1: "f3 3232235521"
    using f3 inst [where ifs = ?i4 and s = "''lo''" and ips = ?p3 and f = f3 and ip = 3232235521]
    by simp
  from n1 n2 n3 n4 a1 a2 b1 b2 c1 show ?thesis
    by (simp add: f1 f2 f3)
qed

subsection \<open>The builder \<^verbatim>\<open>NewWebRTCConfig\<close>\<close>

lemmas build_defs = NewWebRTCConfig_def ifFilterForConf_def ipFilterForConf_def
  nat1to1ForConf_def udpForConf_def tcpForConf_def udpMuxOpts_def newSettingEngine_def
  iceServersForConf_def iceServerForStunServers_def IPFilterFromConf_def

lemmas demo_defs = demo_world_def conf_zero_def demo_ParseCIDR_def demo_ListenTCP_def
  demo_NewMultiUDPMuxFromPort_def demo_SetEphemeralUDPPortRange_def

lemmas nat_defs = getNAT1to1IPsForConf_def received_def launched_def probe_def
  udpPortsForConf_def collect_def selfMap_def







lemma udpMuxOpts_PacketBufferSize:
  "udpMuxOpts (r\<lparr>PacketBufferSize := n\<rparr>) a b = udpMuxOpts r a b"
  by (simp add: udpMuxOpts_def)

text \<open>
  C3. Whenever \<^verbatim>\<open>NewWebRTCConfig\<close> succeeds, the field \<^verbatim>\<open>UDPMux\<close> of the returned
  configuration is nil. This includes the configurations where TCP is not forced, no
  port range is set and a UDP port is configured: there the multiplexer is built and
  attached to the setting engine, and still does not appear in the returned struct.
\<close>

theorem udp_mux_not_returned:
  assumes "NewWebRTCConfig K W conf externalIP = Inr cfg"
  shows "UDPMux cfg = None \<and>
     (\<not> ForceTCP (RTC conf)
        \<and> \<not> (ICEPortRangeStart (RTC conf) \<noteq> 0 \<and> ICEPortRangeEnd (RTC conf) \<noteq> 0)
        \<and> UDPPort (RTC conf) \<noteq> 0 \<longrightarrow>
      (\<exists>ipFilter udpMux. ipFilterForConf W (RTC conf) = Inr ipFilter \<and>
         ice_NewMultiUDPMuxFromPort W (uint (UDPPort (RTC conf)))
            (udpMuxOpts (RTC conf) (ifFilterForConf (RTC conf)) ipFilter) = Inr udpMux \<and>
         se_ICEUDPMux (SettingEngine cfg) = Some udpMux))"
proof -
  have a: "UDPMux cfg = None"
    using assms
    by (auto simp: NewWebRTCConfig_def Let_def split: sum.splits prod.splits if_splits)
  have b: "\<exists>ipFilter udpMux. ipFilterForConf W (RTC conf) = Inr ipFilter \<and>
         ice_NewMultiUDPMuxFromPort W (uint (UDPPort (RTC conf)))
            (udpMuxOpts (RTC conf) (ifFilterForConf (RTC conf)) ipFilter) = Inr udpMux \<and>
         se_ICEUDPMux (SettingEngine cfg) = Some udpMux"
    if "\<not> ForceTCP (RTC conf)"
      "\<not> (ICEPortRangeStart (RTC conf) \<noteq> 0 \<and> ICEPortRangeEnd (RTC conf) \<noteq> 0)"
      "UDPPort (RTC conf) \<noteq> 0"
    using assms that
    by (auto simp: NewWebRTCConfig_def Let_def udpForConf_def tcpForConf_def
        udpMuxOpts_PacketBufferSize split: sum.splits prod.splits if_splits)
  from a b show ?thesis by blast
qed

theorem udp_mux_not_returned_witness:
  "(case NewWebRTCConfig pion_values demo_world conf_udp [] of
      Inl e \<Rightarrow> False
    | Inr cfg \<Rightarrow> UDPMux cfg = None \<and> se_ICEUDPMux (SettingEngine cfg) = Some 7882)"
proof -
  obtain cfg where cfg: "NewWebRTCConfig pion_values demo_world conf_udp [] = Inr cfg"
    by (simp add: build_defs demo_defs conf_udp_def Let_def)
  have h: "\<not> ForceTCP (RTC conf_udp)
      \<and> \<not> (ICEPortRangeStart (RTC conf_udp) \<noteq> 0 \<and> ICEPortRangeEnd (RTC conf_udp) \<noteq> 0)
      \<and> UDPPort (RTC conf_udp) \<noteq> 0"
    by (simp add: conf_udp_def conf_zero_def)
  have m: "ice_NewMultiUDPMuxFromPort demo_world (uint (UDPPort (RTC conf_udp))) opts = Inr 7882"
    for opts
    by (simp add: demo_defs conf_udp_def)
  from udp_mux_not_returned [OF cfg] h m
  have "UDPMux cfg = None \<and> se_ICEUDPMux (SettingEngine cfg) = Some 7882"
    by auto
  then show ?thesis by (simp add: cfg)
qed

text \<open>
  C10. Whenever \<^verbatim>\<open>NewWebRTCConfig\<close> succeeds, the receiver's packet buffer size is 500
  if the configured size is 0, and the configured size otherwise.
\<close>

theorem packet_buffer_size_default:
  assumes "NewWebRTCConfig K W conf externalIP = Inr cfg"
  shows "recv_PacketBufferSize (Receiver cfg) =
     (if PacketBufferSize (RTC conf) = 0 then 500 else PacketBufferSize (RTC conf))"
  using assms
  by (auto simp: NewWebRTCConfig_def Let_def split: sum.splits prod.splits if_splits)

theorem packet_buffer_size_default_witness:
  "(case NewWebRTCConfig pion_values demo_world conf_udp [] of
      Inl e \<Rightarrow> False | Inr cfg \<Rightarrow> recv_PacketBufferSize (Receiver cfg) = 500)
   \<and> (case NewWebRTCConfig pion_values demo_world conf_udp_bwe [] of
      Inl e \<Rightarrow> False | Inr cfg \<Rightarrow> recv_PacketBufferSize (Receiver cfg) = 200)"
proof -
  obtain cfg where cfg: "NewWebRTCConfig pion_values demo_world conf_udp [] = Inr cfg"
    by (simp add: build_defs demo_defs conf_udp_def Let_def)
  obtain cfg' where cfg': "NewWebRTCConfig pion_values demo_world conf_udp_bwe [] = Inr cfg'"
    by (simp add: build_defs demo_defs conf_udp_bwe_def Let_def)
  have "recv_PacketBufferSize (Receiver cfg) = 500"
    using packet_buffer_size_default [OF cfg] by (simp add: conf_udp_def conf_zero_def)
  moreover have "recv_PacketBufferSize (Receiver cfg') = 200"
    using packet_buffer_size_default [OF cfg'] by (simp add: conf_udp_bwe_def conf_zero_def)
  ultimately show ?thesis by (simp add: cfg cfg')
qed

lemma subscriberConfig_video:
  "hdr_Video (RTPHeaderExtension (subscriberConfig K conf rtcConf)) =
     [dd_ExtensionUrl K,
      if UseSendSideBWE (CongestionControl rtcConf) then sdp_TransportCCURI K
      else sdp_ABSSendTimeURI K]"
  "map fb_Type (rtcpfb_Video (RTCPFeedbackCfg (subscriberConfig K conf rtcConf))) =
     [webrtc_TypeRTCPFBCCM K, webrtc_TypeRTCPFBNACK K, webrtc_TypeRTCPFBNACK K,
      if UseSendSideBWE (CongestionControl rtcConf) then webrtc_TypeRTCPFBTransportCC K
      else webrtc_TypeRTCPFBGoogREMB K]"
  by (simp_all add: subscriberConfig_def Let_def)

lemma NewWebRTCConfig_Subscriber:
  assumes "NewWebRTCConfig K W conf externalIP = Inr cfg"
  shows "Subscriber cfg = subscriberConfig K conf (RTC conf)"
  using assms
  by (auto simp: NewWebRTCConfig_def Let_def subscriberConfig_def
      split: sum.splits prod.splits if_splits)

text \<open>
  C5. The subscriber profile follows the send-side bandwidth estimation flag. With the
  flag on, its video header extensions contain the transport-wide-CC URI and not the
  abs-send-time URI, and its video feedback contains transport-CC and not REMB. With the
  flag off it is the other way round. The URIs and feedback types are constants of the
  pion libraries; the statement needs them to be different from one another, as they are.
\<close>

theorem subscriber_profile_follows_bwe_flag:
  assumes ok: "NewWebRTCConfig K W conf externalIP = Inr cfg"
    and uris: "distinct [dd_ExtensionUrl K, sdp_TransportCCURI K, sdp_ABSSendTimeURI K]"
    and types: "distinct [webrtc_TypeRTCPFBCCM K, webrtc_TypeRTCPFBNACK K,
        webrtc_TypeRTCPFBTransportCC K, webrtc_TypeRTCPFBGoogREMB K]"
  shows "(UseSendSideBWE (CongestionControl (RTC conf)) \<longrightarrow>
        sdp_TransportCCURI K \<in> set (hdr_Video (RTPHeaderExtension (Subscriber cfg)))
      \<and> sdp_ABSSendTimeURI K \<notin> set (hdr_Video (RTPHeaderExtension (Subscriber cfg)))
      \<and> webrtc_TypeRTCPFBTransportCC K
           \<in> set (map fb_Type (rtcpfb_Video (RTCPFeedbackCfg (Subscriber cfg))))
      \<and> webrtc_TypeRTCPFBGoogREMB K
           \<notin> set (map fb_Type (rtcpfb_Video (RTCPFeedbackCfg (Subscriber cfg)))))
    \<and> (\<not> UseSendSideBWE (CongestionControl (RTC conf)) \<longrightarrow>
        sdp_ABSSendTimeURI K \<in> set (hdr_Video (RTPHeaderExtension (Subscriber cfg)))
      \<and> sdp_TransportCCURI K \<notin> set (hdr_Video (RTPHeaderExtension (Subscriber cfg)))
      \<and> webrtc_TypeRTCPFBGoogREMB K
           \<in> set (map fb_Type (rtcpfb_Video (RTCPFeedbackCfg (Subscriber cfg))))
      \<and> webrtc_TypeRTCPFBTransportCC K
           \<notin> set (map fb_Type (rtcpfb_Video (RTCPFeedbackCfg (Subscriber cfg)))))"
proof -
  have s: "Subscriber cfg = subscriberConfig K conf (RTC conf)"
    by (rule NewWebRTCConfig_Subscriber [OF ok])
  show ?thesis
    using uris types by (auto simp: s subscriberConfig_def Let_def)
qed

theorem subscriber_profile_follows_bwe_flag_witness:
  "(case NewWebRTCConfig pion_values demo_world conf_udp_bwe [] of
      Inl e \<Rightarrow> False
    | Inr cfg \<Rightarrow>
        sdp_TransportCCURI pion_values \<in> set (hdr_Video (RTPHeaderExtension (Subscriber cfg)))
      \<and> sdp_ABSSendTimeURI pion_values \<notin> set (hdr_Video (RTPHeaderExtension (Subscriber cfg)))
      \<and> webrtc_TypeRTCPFBTransportCC pion_values
           \<in> set (map fb_Type (rtcpfb_Video (RTCPFeedbackCfg (Subscriber cfg))))
      \<and> webrtc_TypeRTCPFBGoogREMB pion_values
           \<notin> set (map fb_Type (rtcpfb_Video (RTCPFeedbackCfg (Subscriber cfg)))))
   \<and> (case NewWebRTCConfig pion_values demo_world conf_udp [] of
      Inl e \<Rightarrow> False
    | Inr cfg \<Rightarrow>
        sdp_ABSSendTimeURI pion_values \<in> set (hdr_Video (RTPHeaderExtension (Subscriber cfg)))
      \<and> sdp_TransportCCURI pion_values \<notin> set (hdr_Video (RTPHeaderExtension (Subscriber cfg)))
      \<and> webrtc_TypeRTCPFBGoogREMB pion_values
           \<in> set (map fb_Type (rtcpfb_Video (RTCPFeedbackCfg (Subscriber cfg))))
      \<and> webrtc_TypeRTCPFBTransportCC pion_values
           \<notin> set (map fb_Type (rtcpfb_Video (RTCPFeedbackCfg (Subscriber cfg)))))"
proof -
  obtain cfg where cfg: "NewWebRTCConfig pion_values demo_world conf_udp_bwe [] = Inr cfg"
    by (simp add: build_defs demo_defs conf_udp_bwe_def Let_def)
  obtain cfg' where cfg': "NewWebRTCConfig pion_values demo_world conf_udp [] = Inr cfg'"
    by (simp add: build_defs demo_defs conf_udp_def Let_def)
  have u: "distinct [dd_ExtensionUrl pion_values, sdp_TransportCCURI pion_values,
      sdp_ABSSendTimeURI pion_values]"
    by (simp add: pion_values_def)
  have t: "distinct [webrtc_TypeRTCPFBCCM pion_values, webrtc_TypeRTCPFBNACK pion_values,
      webrtc_TypeRTCPFBTransportCC pion_values, webrtc_TypeRTCPFBGoogREMB pion_values]"
    by (simp add: pion_values_def)
  have on: "UseSendSideBWE (CongestionControl (RTC conf_udp_bwe))"
    by (simp add: conf_udp_bwe_def conf_zero_def)
  have off: "\<not> UseSendSideBWE (CongestionControl (RTC conf_udp))"
    by (simp add: conf_udp_def conf_zero_def)
  from subscriber_profile_follows_bwe_flag [OF cfg u t] on
    subscriber_profile_follows_bwe_flag [OF cfg' u t] off
  show ?thesis
    by (simp only: cfg cfg' sum.case) blast
qed





subsection \<open>The probe of one local address\<close>

text \<open>A probe is started for exactly the local addresses that pass the filter.\<close>

lemma launched_iff:
  "ip \<in> set (launched W ipFilter localIPs) \<longleftrightarrow>
     ip \<in> set localIPs \<and> (case ipFilter of None \<Rightarrow> True | Some f \<Rightarrow> f (net_ParseIP W ip))"
  by (auto simp: launched_def split: option.splits)

lemma probePorts_skip_busy:
  assumes "\<forall>i<length pre. addressInUse (stun (k + i) (pre ! i))"
  shows "probePorts stun lip k (pre @ rest) =
     (fst (probePorts stun lip (k + length pre) rest),
      pre @ snd (probePorts stun lip (k + length pre) rest))"
  using assms
proof (induction pre arbitrary: k)
  case Nil
  show ?case by simp
next
  case (Cons p pre)
  from Cons.prems have "addressInUse (stun (k + 0) ((p # pre) ! 0))"
    by blast
  then obtain err where e: "stun k p = Inl err"
    and u: "strings_Contains err ''address already in use''"
    by (auto simp: addressInUse_def split: sum.splits)
  have "\<forall>i<length pre. addressInUse (stun (Suc k + i) (pre ! i))"
  proof (intro allI impI)
    fix i assume "i < length pre"
    then have "addressInUse (stun (k + Suc i) ((p # pre) ! Suc i))"
      using Cons.prems by (metis Suc_less_eq length_Cons)
    then show "addressInUse (stun (Suc k + i) (pre ! i))" by simp
  qed
  from Cons.IH [OF this] show ?case
    by (simp add: e u)
qed

text \<open>
  C8. A probe tries the candidate ports in order. While the requests fail with
  \<^verbatim>\<open>address already in use\<close> it goes on to the next port. At the first port with another
  outcome it stops: after an answer it has sent exactly one pair (external, local); after
  any other failure it has sent nothing; in both cases no later port is tried. When every
  port fails with \<^verbatim>\<open>address already in use\<close> it has tried them all and sent nothing.
  (\<open>pre\<close> are the ports tried in vain, \<open>port\<close> is the next one, \<open>post\<close> are the remaining ones.)
\<close>

theorem probe_stops_at_first_decisive_port:
  assumes busy: "\<forall>i<length pre.
      addressInUse (config_GetExternalIP W g i stunServers (net_ParseIP W lip) (pre ! i))"
  shows "(config_GetExternalIP W g (length pre) stunServers (net_ParseIP W lip) port = Inr addr \<longrightarrow>
        probe W stunServers (pre @ port # post) g lip = ([(addr, lip)], pre @ [port]))
    \<and> (config_GetExternalIP W g (length pre) stunServers (net_ParseIP W lip) port = Inl err
         \<and> \<not> strings_Contains err ''address already in use'' \<longrightarrow>
        probe W stunServers (pre @ port # post) g lip = ([], pre @ [port]))
    \<and> (config_GetExternalIP W g (length pre) stunServers (net_ParseIP W lip) port = Inl err
         \<and> strings_Contains err ''address already in use'' \<longrightarrow>
        probe W stunServers (pre @ port # post) g lip
          = (fst (probePorts (\<lambda>k. config_GetExternalIP W g k stunServers (net_ParseIP W lip))
                   lip (Suc (length pre)) post),
             pre @ port # snd (probePorts (\<lambda>k. config_GetExternalIP W g k stunServers (net_ParseIP W lip))
                   lip (Suc (length pre)) post)))
    \<and> probe W stunServers pre g lip = ([], pre)"
proof -
  let ?stun = "\<lambda>k port. config_GetExternalIP W g k stunServers (net_ParseIP W lip) port"
  have b: "\<forall>i<length pre. addressInUse (?stun (0 + i) (pre ! i))"
    using busy by simp
  have s: "probePorts ?stun lip 0 (pre @ rest) =
     (fst (probePorts ?stun lip (length pre) rest), pre @ snd (probePorts ?stun lip (length pre) rest))"
    for rest
    using probePorts_skip_busy [OF b, of lip rest] by simp
  have 1: "probe W stunServers (pre @ port # post) g lip = ([(addr, lip)], pre @ [port])"
    if "?stun (length pre) port = Inr addr"
    unfolding probe_def s by (simp add: that)
  have 2: "probe W stunServers (pre @ port # post) g lip = ([], pre @ [port])"
    if "?stun (length pre) port = Inl err" "\<not> strings_Contains err ''address already in use''"
    unfolding probe_def s by (simp add: that)
  have 3: "probe W stunServers (pre @ port # post) g lip
          = (fst (probePorts ?stun lip (Suc (length pre)) post),
             pre @ port # snd (probePorts ?stun lip (Suc (length pre)) post))"
    if "?stun (length pre) port = Inl err" "strings_Contains err ''address already in use''"
    unfolding probe_def s by (simp add: that split: prod.splits)
  have 4: "probe W stunServers pre g lip = ([], pre)"
    unfolding probe_def using s [of "[]"] by simp
  from 1 2 3 4 show ?thesis by blast
qed

theorem probe_stops_at_first_decisive_port_witness:
  "probe busy_world [''stun.l.google.com:19302''] [7882, 7883, 7884] 0 ''10.0.0.1''
     = ([(''203.0.113.5'', ''10.0.0.1'')], [7882, 7883])
   \<and> probe busy_world [''stun.l.google.com:19302''] [7882, 7884, 7883] 0 ''10.0.0.1''
     = ([], [7882, 7884])
   \<and> probe busy_world [''stun.l.google.com:19302''] [7882, 7882] 0 ''10.0.0.1''
     = ([], [7882, 7882])"
proof -
  let ?S = "[''stun.l.google.com:19302'']"
  have b1: "\<forall>i<length [7882::int]. addressInUse
      (config_GetExternalIP busy_world 0 i ?S (net_ParseIP busy_world ''10.0.0.1'') ([7882] ! i))"
    by (simp add: busy_world_def stun_busy_def addressInUse_def)
  have b2: "\<forall>i<length [7882::int, 7882]. addressInUse
      (config_GetExternalIP busy_world 0 i ?S (net_ParseIP busy_world ''10.0.0.1'') ([7882, 7882] ! i))"
    by (simp add: busy_world_def stun_busy_def addressInUse_def less_Suc_eq)
  have ok: "config_GetExternalIP busy_world 0 (length [7882::int]) ?S
      (net_ParseIP busy_world ''10.0.0.1'') 7883 = Inr ''203.0.113.5''"
    by (simp add: busy_world_def stun_busy_def)
  have other: "config_GetExternalIP busy_world 0 (length [7882::int]) ?S
      (net_ParseIP busy_world ''10.0.0.1'') 7884 = Inl ''i/o timeout''
      \<and> \<not> strings_Contains ''i/o timeout'' ''address already in use''"
    by (simp add: busy_world_def stun_busy_def)
  from probe_stops_at_first_decisive_port [where port = 7883 and addr = "''203.0.113.5''"
      and post = "[7884]", OF b1] ok
  have 1: "probe busy_world ?S [7882, 7883, 7884] 0 ''10.0.0.1''
     = ([(''203.0.113.5'', ''10.0.0.1'')], [7882, 7883])"
    by simp
  from probe_stops_at_first_decisive_port [where port = 7884 and err = "''i/o timeout''"
      and post = "[7883]", OF b1] other
  have 2: "probe busy_world ?S [7882, 7884, 7883] 0 ''10.0.0.1'' = ([], [7882, 7884])"
    by simp
  from probe_stops_at_first_decisive_port [OF b2]
  have 3: "probe busy_world ?S [7882, 7882] 0 ''10.0.0.1'' = ([], [7882, 7882])"
    by simp
  from 1 2 3 show ?thesis by simp
qed

subsection \<open>NAT 1:1 resolution\<close>



lemma received_nothing_launched:
  assumes "launched W ipFilter localIPs = []"
  shows "received W stunServers udpPorts ipFilter localIPs = []"
  by (simp add: received_def assms)





text \<open>
  When the list of local addresses is empty, or the IP filter rejects every entry, no
  probe is started; if the candidate ports have been determined, the resolution then
  returns (nil, nil).
\<close>

lemma no_local_ip_returns_nil:
  assumes loc: "config_GetLocalIPAddresses W (EnableLoopbackCandidate (RTC conf)) = Inr localIPs"
    and ports: "udpPortsForConf W conf = Inr udpPorts"
    and none: "localIPs = []
      \<or> (\<exists>f. ipFilter = Some f \<and> (\<forall>ip\<in>set localIPs. \<not> f (net_ParseIP W ip)))"
  shows "getNAT1to1IPsForConf W conf ipFilter = Inr []"
proof -
  from none have "launched W ipFilter localIPs = []"
    by (auto simp: launched_def)
  then show ?thesis
    by (simp add: getNAT1to1IPsForConf_def loc ports received_nothing_launched)
qed

lemma no_local_ip_returns_nil_example:
  "getNAT1to1IPsForConf empty_world conf_external None = Inr []
   \<and> getNAT1to1IPsForConf answering_world conf_exclude_ten
       (Some (ipFilterClosure demo_Contains [] [(167772160, 8)])) = Inr []
   \<and> getNAT1to1IPsForConf answering_world conf_exclude_ten None = Inr [''203.0.113.5/10.0.0.1'']"
proof -
  have loc1: "config_GetLocalIPAddresses empty_world
      (EnableLoopbackCandidate (RTC conf_external)) = Inr []"
    by (simp add: empty_world_def local_none_def)
  have ports1: "udpPortsForConf empty_world conf_external = Inr [7882]"
    by (simp add: udpPortsForConf_def conf_external_def conf_zero_def)
  have loc2: "config_GetLocalIPAddresses answering_world
      (EnableLoopbackCandidate (RTC conf_exclude_ten)) = Inr [''10.0.0.1'']"
    by (simp add: answering_world_def demo_world_def local_one_def)
  have ports2: "udpPortsForConf answering_world conf_exclude_ten = Inr [7882]"
    by (simp add: udpPortsForConf_def conf_exclude_ten_def conf_zero_def)
  let ?f = "ipFilterClosure demo_Contains [] [(167772160, 8)]"
  have rej: "[''10.0.0.1''] = []
      \<or> (\<exists>f. Some ?f = Some f \<and> (\<forall>ip\<in>set [''10.0.0.1'']. \<not> f (net_ParseIP answering_world ip)))"
    by (simp add: answering_world_def demo_world_def demo_ParseIP_def ipFilterClosure_def
        demo_Contains_def)
  have 1: "getNAT1to1IPsForConf empty_world conf_external None = Inr []"
    using no_local_ip_returns_nil [OF loc1 ports1] by simp
  have 2: "getNAT1to1IPsForConf answering_world conf_exclude_ten (Some ?f) = Inr []"
    using no_local_ip_returns_nil [OF loc2 ports2 rej] by simp
  have 3: "getNAT1to1IPsForConf answering_world conf_exclude_ten None = Inr [''203.0.113.5/10.0.0.1'']"
    by (simp add: nat_defs answering_world_def demo_world_def conf_exclude_ten_def conf_zero_def
        local_one_def stun_shared_def demo_ParseIP_def Let_def)
  from 1 2 3 show ?thesis by simp
qed

text \<open>The IP filter that \<^verbatim>\<open>NewWebRTCConfig\<close> builds when 10.0.0.0/8 is excluded.\<close>

lemma exclude_ten_filter:
  "ipFilterForConf answering_world (RTC conf_one_port_exclude_ten)
     = Inr (Some (ipFilterClosure demo_Contains [] [(167772160, 8)]))"
  by (simp add: ipFilterForConf_def IPFilterFromConf_def conf_one_port_exclude_ten_def
      conf_zero_def answering_world_def demo_world_def demo_ParseCIDR_def)

text \<open>
  C9. The local address 10.0.0.1 is rejected by the IP filter (10.0.0.0/8 is excluded),
  so no probe is started, and the configured port range is 50000..50000. The candidate
  ports are sampled at line 308, before the loop of line 318 looks at the local
  addresses: \<^verbatim>\<open>rand.Intn(0)\<close> panics and the function does not return (nil, nil). The
  same happens with an empty list of local addresses.
\<close>

theorem no_probe_one_port_range_panics:
  "config_GetLocalIPAddresses answering_world
      (EnableLoopbackCandidate (RTC conf_one_port_exclude_ten)) = Inr [''10.0.0.1'']
   \<and> launched answering_world (Some (ipFilterClosure demo_Contains [] [(167772160, 8)]))
       [''10.0.0.1''] = []
   \<and> getNAT1to1IPsForConf answering_world conf_one_port_exclude_ten
       (Some (ipFilterClosure demo_Contains [] [(167772160, 8)]))
       = Inl (Panic ''invalid argument to Intn'')
   \<and> config_GetLocalIPAddresses empty_world
      (EnableLoopbackCandidate (RTC conf_single_port_range)) = Inr []
   \<and> getNAT1to1IPsForConf empty_world conf_single_port_range None
       = Inl (Panic ''invalid argument to Intn'')"
  by (simp add: getNAT1to1IPsForConf_def udpPortsForConf_def launched_def ipFilterForConf_def
      IPFilterFromConf_def conf_one_port_exclude_ten_def conf_single_port_range_def
      conf_zero_def rand_Intn_def upt_rec answering_world_def empty_world_def demo_world_def
      local_one_def local_none_def demo_ParseCIDR_def demo_ParseIP_def ipFilterClosure_def
      demo_Contains_def)

subsection \<open>The candidate ports\<close>

text \<open>
  For a range with start below end (as 16-bit values) the five ports lie in the range,
  the end port excluded. A fixed port and the wildcard port are taken as they are.
\<close>

lemma samplePorts_in_range:
  assumes "portRangeStart < portRangeEnd"
  shows "\<exists>udpPorts. samplePorts raw portRangeStart portRangeEnd is = Inr udpPorts
      \<and> length udpPorts = length is
      \<and> (\<forall>p\<in>set udpPorts. uint portRangeStart \<le> p \<and> p < uint portRangeEnd)"
proof (induction "is")
  case Nil
  show ?case by simp
next
  case (Cons i "is")
  have d: "uint (portRangeEnd - portRangeStart) = uint portRangeEnd - uint portRangeStart"
    using assms by (simp add: uint_sub_lem [THEN iffD1] word_less_alt)
  have pos: "0 < uint portRangeEnd - uint portRangeStart"
    using assms by (simp add: word_less_alt)
  obtain r where r: "rand_Intn (raw i) (uint (portRangeEnd - portRangeStart)) = Inr r"
    and r0: "0 \<le> r" and r1: "r < uint portRangeEnd - uint portRangeStart"
    using pos by (simp add: rand_Intn_def d)
  from Cons.IH obtain ps where ps: "samplePorts raw portRangeStart portRangeEnd is = Inr ps"
    "length ps = length is" "\<forall>p\<in>set ps. uint portRangeStart \<le> p \<and> p < uint portRangeEnd"
    by blast
  show ?case
    using r0 r1 ps by (simp add: r)
qed

lemma udpPortsForConf_cases:
  "(ICEPortRangeStart (RTC conf) \<noteq> 0 \<and> ICEPortRangeEnd (RTC conf) \<noteq> 0
      \<and> (ucast (ICEPortRangeStart (RTC conf)) :: 16 word) < ucast (ICEPortRangeEnd (RTC conf)) \<longrightarrow>
      (\<exists>udpPorts. udpPortsForConf W conf = Inr udpPorts \<and> length udpPorts = 5
         \<and> (\<forall>p\<in>set udpPorts.
               uint (ucast (ICEPortRangeStart (RTC conf)) :: 16 word) \<le> p
             \<and> p < uint (ucast (ICEPortRangeEnd (RTC conf)) :: 16 word))))
   \<and> (ICEPortRangeStart (RTC conf) \<noteq> 0 \<and> ICEPortRangeEnd (RTC conf) \<noteq> 0
      \<and> (ucast (ICEPortRangeStart (RTC conf)) :: 16 word) = ucast (ICEPortRangeEnd (RTC conf)) \<longrightarrow>
      udpPortsForConf W conf = Inl (Panic ''invalid argument to Intn''))
   \<and> (\<not> (ICEPortRangeStart (RTC conf) \<noteq> 0 \<and> ICEPortRangeEnd (RTC conf) \<noteq> 0)
      \<and> UDPPort (RTC conf) \<noteq> 0 \<longrightarrow>
      udpPortsForConf W conf = Inr [uint (UDPPort (RTC conf))])
   \<and> (\<not> (ICEPortRangeStart (RTC conf) \<noteq> 0 \<and> ICEPortRangeEnd (RTC conf) \<noteq> 0)
      \<and> UDPPort (RTC conf) = 0 \<longrightarrow>
      udpPortsForConf W conf = Inr [0])"
proof -
  have 1: "\<exists>udpPorts. udpPortsForConf W conf = Inr udpPorts \<and> length udpPorts = 5
         \<and> (\<forall>p\<in>set udpPorts.
               uint (ucast (ICEPortRangeStart (RTC conf)) :: 16 word) \<le> p
             \<and> p < uint (ucast (ICEPortRangeEnd (RTC conf)) :: 16 word))"
    if "ICEPortRangeStart (RTC conf) \<noteq> 0" "ICEPortRangeEnd (RTC conf) \<noteq> 0"
      "(ucast (ICEPortRangeStart (RTC conf)) :: 16 word) < ucast (ICEPortRangeEnd (RTC conf))"
    using samplePorts_in_range [OF that(3), of "rand_raw W" "[0..<5]"] that(1,2)
    by (simp add: udpPortsForConf_def)
  have 2: "udpPortsForConf W conf = Inl (Panic ''invalid argument to Intn'')"
    if "ICEPortRangeStart (RTC conf) \<noteq> 0" "ICEPortRangeEnd (RTC conf) \<noteq> 0"
      "(ucast (ICEPortRangeStart (RTC conf)) :: 16 word) = ucast (ICEPortRangeEnd (RTC conf))"
    using that by (simp add: udpPortsForConf_def upt_rec rand_Intn_def)
  have 3: "udpPortsForConf W conf = Inr [uint (UDPPort (RTC conf))]"
    if "\<not> (ICEPortRangeStart (RTC conf) \<noteq> 0 \<and> ICEPortRangeEnd (RTC conf) \<noteq> 0)"
      "UDPPort (RTC conf) \<noteq> 0"
    using that by (auto simp: udpPortsForConf_def)
  have 4: "udpPortsForConf W conf = Inr [0]"
    if "\<not> (ICEPortRangeStart (RTC conf) \<noteq> 0 \<and> ICEPortRangeEnd (RTC conf) \<noteq> 0)"
      "UDPPort (RTC conf) = 0"
    using that by (auto simp: udpPortsForConf_def)
  from 1 2 3 4 show ?thesis by blast
qed

lemma port_range_example:
  "udpPortsForConf demo_world conf_port_range = Inr [50013, 57932, 55851, 53770, 51689]"
  by (simp add: udpPortsForConf_def conf_port_range_def conf_zero_def demo_world_def
      demo_raw_def rand_Intn_def upt_rec)

text \<open>
  C7. A range of one port, start = end = 50000, has both ends non-zero. The argument of
  \<^verbatim>\<open>rand.Intn\<close> at line 308 is then 0 and the call panics: no candidate port is
  produced, whatever the random source.
\<close>

theorem single_port_range_panics:
  "ICEPortRangeStart (RTC conf_single_port_range) = 50000
   \<and> ICEPortRangeEnd (RTC conf_single_port_range) = 50000
   \<and> udpPortsForConf W conf_single_port_range = Inl (Panic ''invalid argument to Intn'')
   \<and> getNAT1to1IPsForConf demo_world conf_single_port_range None
       = Inl (Panic ''invalid argument to Intn'')"
  by (simp add: getNAT1to1IPsForConf_def udpPortsForConf_def conf_single_port_range_def
      conf_zero_def rand_Intn_def upt_rec demo_world_def local_one_def)

subsection \<open>Orders chosen by the environment\<close>

lemma mset_without_nth:
  assumes "i < length ys"
  shows "add_mset (ys ! i) (mset (take i ys @ drop (Suc i) ys)) = mset ys"
proof -
  have "add_mset (ys ! i) (mset (take i ys @ drop (Suc i) ys))
      = mset (take i ys @ (ys ! i # drop (Suc i) ys))"
    by simp
  also have "\<dots> = mset (take i ys @ drop i ys)"
    by (simp only: Cons_nth_drop_Suc [OF assms])
  also have "\<dots> = mset ys"
    by (simp only: append_take_drop_id)
  finally show ?thesis .
qed

lemma mset_permute: "mset (permute seed xs) = mset xs"
proof (induction seed xs rule: permute.induct)
  case (1 seed)
  show ?case by simp
next
  case (2 x xs)
  show ?case by simp
next
  case (3 n seed x xs)
  define ys where "ys = x # xs"
  define i where "i = n mod length ys"
  have i: "i < length ys" by (simp add: i_def ys_def)
  have "permute (n # seed) (x # xs) = ys ! i # permute seed (take i ys @ drop (Suc i) ys)"
    by (simp add: Let_def i_def ys_def)
  moreover have "mset (permute seed (take i ys @ drop (Suc i) ys))
      = mset (take i ys @ drop (Suc i) ys)"
    using "3.IH" [of i] by (simp add: i_def ys_def)
  ultimately have "mset (permute (n # seed) (x # xs))
      = add_mset (ys ! i) (mset (take i ys @ drop (Suc i) ys))"
    by simp
  then have "mset (permute (n # seed) (x # xs)) = mset ys"
    by (simp only: mset_without_nth [OF i])
  then show ?case
    by (simp only: ys_def)
qed

lemma set_permute: "set (permute seed xs) = set xs"
  using mset_permute [of seed xs] by (metis set_mset_mset)

lemma distinct_map_permute: "distinct (map f (permute seed xs)) = distinct (map f xs)"
proof -
  have "mset (map f (permute seed xs)) = mset (map f xs)"
    by (simp add: mset_permute)
  then show ?thesis by (rule mset_eq_imp_distinct_iff)
qed

subsection \<open>The map built by the collector\<close>

lemma update_new_key: "k \<notin> fst ` set al \<Longrightarrow> AList.update k v al = al @ [(k, v)]"
  by (induction al) auto

lemma collect_eq:
  "collect mapping natMapping =
     (if fst mapping \<in> fst ` set natMapping then natMapping else natMapping @ [mapping])"
proof (cases "fst mapping \<in> fst ` set natMapping")
  case True
  then have "map_of natMapping (fst mapping) \<noteq> None"
    by (simp add: map_of_eq_None_iff)
  then show ?thesis
    using True by (auto simp: collect_def)
next
  case False
  then have "map_of natMapping (fst mapping) = None"
    by (simp add: map_of_eq_None_iff)
  then show ?thesis
    using False by (simp add: collect_def update_new_key)
qed

lemma selfMap_eq:
  "selfMap lcl natMapping =
     (if lcl \<in> snd ` set natMapping then natMapping else AList.update lcl lcl natMapping)"
  by (auto simp: selfMap_def list_ex_iff intro: rev_image_eqI)

lemma distinct_keys_fold_collect:
  "distinct (map fst natMapping) \<Longrightarrow> distinct (map fst (fold collect msgs natMapping))"
  by (induction msgs arbitrary: natMapping) (auto simp: collect_eq)

lemma distinct_keys_fold_selfMap:
  "distinct (map fst natMapping) \<Longrightarrow> distinct (map fst (fold selfMap localIPs natMapping))"
  by (induction localIPs arbitrary: natMapping) (auto simp: selfMap_eq AList.distinct_update)

text \<open>The keys of the returned entries are pairwise distinct.\<close>

lemma returned_keys_distinct:
  assumes "getNAT1to1IPsForConf W conf ipFilter = Inr ips"
  shows "\<exists>natMapping. ips = map (\<lambda>(external, lcl). external @ ''/'' @ lcl) natMapping
      \<and> distinct (map fst natMapping)"
proof (cases "ips = []")
  case True
  then show ?thesis by (intro exI [of _ "[]"]) simp
next
  case False
  with assms obtain localIPs msgs where
    "ips = map (\<lambda>(external, lcl). external @ ''/'' @ lcl)
       (permute (range_order W) (fold selfMap localIPs (fold collect msgs [])))"
    by (auto simp: getNAT1to1IPsForConf_def Let_def split: sum.splits if_splits)
  moreover have "distinct (map fst (permute (range_order W) (fold selfMap localIPs (fold collect msgs []))))"
    by (simp add: distinct_map_permute distinct_keys_fold_selfMap distinct_keys_fold_collect)
  ultimately show ?thesis by blast
qed


subsection \<open>Local addresses as values\<close>

lemma subseq_distinct: "subseq xs ys \<Longrightarrow> distinct ys \<Longrightarrow> distinct xs"
  by (induction rule: list_emb.induct) (auto dest: list_emb_set)

lemma subseq_set: "subseq xs ys \<Longrightarrow> set xs \<subseteq> set ys"
  by (auto dest: list_emb_set)

lemma fold_collect_subseq:
  "\<exists>ys. fold collect msgs natMapping = natMapping @ ys \<and> subseq ys msgs"
proof (induction msgs arbitrary: natMapping)
  case Nil
  show ?case by simp
next
  case (Cons x msgs)
  show ?case
  proof (cases "fst x \<in> fst ` set natMapping")
    case True
    from Cons.IH [of natMapping] obtain ys where
      "fold collect msgs natMapping = natMapping @ ys" "subseq ys msgs" by blast
    moreover have "collect x natMapping = natMapping"
      using True by (simp add: collect_eq)
    ultimately have "fold collect (x # msgs) natMapping = natMapping @ ys \<and> subseq ys (x # msgs)"
      by (simp add: list_emb_Cons)
    then show ?thesis by blast
  next
    case False
    from Cons.IH [of "natMapping @ [x]"] obtain ys where
      "fold collect msgs (natMapping @ [x]) = (natMapping @ [x]) @ ys" "subseq ys msgs" by blast
    then have "fold collect (x # msgs) natMapping = natMapping @ (x # ys) \<and> subseq (x # ys) (x # msgs)"
      using False by (simp add: collect_eq)
    then show ?thesis by blast
  qed
qed

lemma probePorts_sent:
  "fst (probePorts stun lip k ports) = []
    \<or> (\<exists>addr. fst (probePorts stun lip k ports) = [(addr, lip)])"
proof (induction ports arbitrary: k)
  case Nil
  show ?case by simp
next
  case (Cons port ports)
  show ?case
  proof (cases "stun k port")
    case (Inl err)
    show ?thesis
      using Cons.IH [of "Suc k"] by (simp add: Inl case_prod_beta)
  next
    case (Inr addr)
    then show ?thesis by simp
  qed
qed

lemma sent_locals_subseq:
  "subseq (map snd (concat (map (\<lambda>(g, ip). fst (probe W stunServers udpPorts g ip))
      (enumerate n ips)))) ips"
proof (induction ips arbitrary: n)
  case Nil
  show ?case by simp
next
  case (Cons ip ips)
  have "map snd (fst (probe W stunServers udpPorts n ip)) = []
      \<or> map snd (fst (probe W stunServers udpPorts n ip)) = [ip]"
    unfolding probe_def
    using probePorts_sent [of "\<lambda>k port. config_GetExternalIP W n k stunServers (net_ParseIP W ip) port" ip 0 udpPorts]
    by auto
  then show ?case
    using Cons.IH [of "Suc n"] by auto
qed

lemma received_locals:
  assumes "distinct localIPs"
  shows "distinct (map snd (received W stunServers udpPorts ipFilter localIPs))"
    and "snd ` set (received W stunServers udpPorts ipFilter localIPs) \<subseteq> set localIPs"
proof -
  let ?sent = "concat (map (\<lambda>(g, ip). fst (probe W stunServers udpPorts g ip))
      (enumerate 0 (launched W ipFilter localIPs)))"
  have sub: "subseq (map snd ?sent) (launched W ipFilter localIPs)"
    by (rule sent_locals_subseq)
  have dl: "distinct (launched W ipFilter localIPs)"
    using assms by (simp add: launched_def)
  have d: "distinct (map snd (permute (chan_order W) ?sent))"
    using subseq_distinct [OF sub dl] by (simp add: distinct_map_permute)
  have "map snd (received W stunServers udpPorts ipFilter localIPs)
      = take (chan_received W) (map snd (permute (chan_order W) ?sent))"
    by (simp add: received_def take_map)
  with d show "distinct (map snd (received W stunServers udpPorts ipFilter localIPs))"
    by simp
  have "set (received W stunServers udpPorts ipFilter localIPs) \<subseteq> set ?sent"
    unfolding received_def using set_take_subset [of "chan_received W" "permute (chan_order W) ?sent"]
    by (simp add: set_permute)
  then have "snd ` set (received W stunServers udpPorts ipFilter localIPs) \<subseteq> set (map snd ?sent)"
    by auto
  also have "\<dots> \<subseteq> set (launched W ipFilter localIPs)"
    by (rule subseq_set [OF sub])
  also have "\<dots> \<subseteq> set localIPs"
    by (auto simp: launched_def)
  finally show "snd ` set (received W stunServers udpPorts ipFilter localIPs) \<subseteq> set localIPs" .
qed

lemma selfMap_without_collision:
  assumes "\<forall>(external, lcl)\<in>set natMapping. external \<in> L \<longrightarrow> external = lcl" and "ip \<in> L"
  shows "selfMap ip natMapping =
     (if ip \<in> snd ` set natMapping then natMapping else natMapping @ [(ip, ip)])"
proof (cases "ip \<in> snd ` set natMapping")
  case True
  then show ?thesis by (simp add: selfMap_eq)
next
  case False
  have "ip \<notin> fst ` set natMapping"
  proof
    assume "ip \<in> fst ` set natMapping"
    then obtain v where v: "(ip, v) \<in> set natMapping" by auto
    with assms have "ip = v" by auto
    with v False show False by (metis image_eqI snd_conv)
  qed
  then show ?thesis using False by (simp add: selfMap_eq update_new_key)
qed

lemma fold_selfMap_without_collision:
  assumes "\<forall>(external, lcl)\<in>set natMapping. external \<in> L \<longrightarrow> external = lcl"
    and "set ips \<subseteq> L"
  shows "snd ` set (fold selfMap ips natMapping) = snd ` set natMapping \<union> set ips
    \<and> (distinct (map snd natMapping) \<longrightarrow> distinct (map snd (fold selfMap ips natMapping)))"
  using assms
proof (induction ips arbitrary: natMapping)
  case Nil
  show ?case by simp
next
  case (Cons ip ips)
  from Cons.prems have ip: "ip \<in> L" and ips: "set ips \<subseteq> L" by auto
  note step = selfMap_without_collision [OF Cons.prems(1) ip]
  show ?case
  proof (cases "ip \<in> snd ` set natMapping")
    case True
    then have "selfMap ip natMapping = natMapping" by (simp add: step)
    with Cons.IH [OF Cons.prems(1) ips] True show ?thesis by auto
  next
    case False
    then have s: "selfMap ip natMapping = natMapping @ [(ip, ip)]" by (simp add: step)
    have inv: "\<forall>(external, lcl)\<in>set (natMapping @ [(ip, ip)]). external \<in> L \<longrightarrow> external = lcl"
      using Cons.prems(1) by auto
    from Cons.IH [OF inv ips] False show ?thesis
      by (auto simp: s)
  qed
qed

text \<open>
  When no external address reported by STUN is the local address of another probe, and
  the local addresses are pairwise different, the final map has every local address as
  a value exactly once.
\<close>

lemma every_local_ip_once_without_collision:
  assumes d: "distinct localIPs"
    and msgs: "msgs = received W stunServers udpPorts ipFilter localIPs"
    and nc: "\<forall>(external, lcl)\<in>set msgs. external \<in> set localIPs \<longrightarrow> external = lcl"
  shows "mset (map snd (permute seed (fold selfMap localIPs (fold collect msgs []))))
     = mset localIPs"
proof -
  obtain m0 where m0: "fold collect msgs [] = m0" and sub: "subseq m0 msgs"
    using fold_collect_subseq [of msgs "[]"] by auto
  have inv: "\<forall>(external, lcl)\<in>set m0. external \<in> set localIPs \<longrightarrow> external = lcl"
    using nc subseq_set [OF sub] by auto
  have dm: "distinct (map snd m0)"
    using subseq_distinct [OF subseq_map [OF sub]] received_locals(1) [OF d] msgs by blast
  have vm: "snd ` set m0 \<subseteq> set localIPs"
    using subseq_set [OF sub] received_locals(2) [OF d] msgs by blast
  from fold_selfMap_without_collision [OF inv subset_refl] dm vm
  have "set (map snd (fold selfMap localIPs m0)) = set localIPs"
    and "distinct (map snd (fold selfMap localIPs m0))"
    by auto
  then have "mset (map snd (fold selfMap localIPs m0)) = mset localIPs"
    using d by (simp add: set_eq_iff_mset_eq_distinct flip: set_map)
  then show ?thesis
    by (simp add: m0 mset_permute)
qed

text \<open>
  C2. The host has the local addresses 10.0.0.1 and 203.0.113.5, and STUN reports
  203.0.113.5 as the external address of both. The answer for 10.0.0.1 is taken first and
  the answer for 203.0.113.5 is dropped as a duplicate. The self-mapping loop then finds
  no value 203.0.113.5 and stores \<^verbatim>\<open>natMapping["203.0.113.5"] = "203.0.113.5"\<close>, which
  replaces the pair discovered for 10.0.0.1: the local address 10.0.0.1 is no value of
  any returned entry.
\<close>

theorem self_mapping_overwrites_discovered_pair:
  "config_GetLocalIPAddresses shared_world (EnableLoopbackCandidate (RTC conf_external))
     = Inr [''10.0.0.1'', ''203.0.113.5'']
   \<and> received shared_world [''stun.l.google.com:19302''] [7882] None [''10.0.0.1'', ''203.0.113.5'']
     = [(''203.0.113.5'', ''10.0.0.1''), (''203.0.113.5'', ''203.0.113.5'')]
   \<and> fold collect [(''203.0.113.5'', ''10.0.0.1''), (''203.0.113.5'', ''203.0.113.5'')] []
     = [(''203.0.113.5'', ''10.0.0.1'')]
   \<and> fold selfMap [''10.0.0.1'', ''203.0.113.5''] [(''203.0.113.5'', ''10.0.0.1'')]
     = [(''203.0.113.5'', ''203.0.113.5'')]
   \<and> getNAT1to1IPsForConf shared_world conf_external None = Inr [''203.0.113.5/203.0.113.5'']"
  by (simp add: nat_defs shared_world_def demo_world_def conf_external_def conf_zero_def
      local_two_def stun_shared_def demo_ParseIP_def Let_def)

end
